theory Spec2Isabelle
  imports Complex_Main "HOL-Library.Char_ord" "HOL-Library.List_Lexorder"
    "HOL-Library.Product_Lexorder"
begin

section \<open>Data model of the tutor store (sqlite\_store.py)\<close>

text \<open>
  The store keeps four tables in one SQLite file. Each table is a list of rows in rowid
  order. Every table is declared with \<open>INTEGER PRIMARY KEY AUTOINCREMENT\<close>, so each one
  carries the counter SQLite keeps for it (the largest rowid handed out so far); a new
  rowid is the successor of that counter.

  Timestamps: the code stores \<open>datetime.now(timezone.utc).isoformat()\<close> and lets SQLite
  compare the texts. For UTC datetimes the ISO-8601 text order is the order of the
  instants, so a timestamp is modelled as the instant itself, an integer number of
  microseconds since 0001-01-01T00:00:00 UTC. Python datetimes stop before year 10000.

  Scores are Python floats (SQLite REAL); they are modelled as real numbers.
\<close>

type_synonym timestamp = int

definition MAX_TIMESTAMP :: timestamp where
  \<comment> \<open>the first instant after datetime.max: 3652059 days of 86400 seconds\<close>
  "MAX_TIMESTAMP = 3652059 * 86400 * 1000000"

definition MICROS_PER_HOUR :: int where
  "MICROS_PER_HOUR = 3600 * 1000000"

text \<open>
  The Python values that travel in lesson contents and in the result dicts of the tools. A
  dict is the list of its items in insertion order; \<open>PTime\<close> is the ISO-8601 text of an
  instant.
\<close>

datatype pyvalue =
    PNone
  | PBool bool
  | PInt int
  | PFloat real
  | PStr string
  | PTime timestamp
  | PList "pyvalue list"
  | PDict "(string \<times> pyvalue) list"

text \<open>
  The exceptions met below: \<open>StorageError\<close> stands for the errors of sqlite3 (an
  OperationalError and its kin), each with its message.
\<close>

datatype error =
    StorageError string
  | OverflowError string
  | TypeError string

definition error_str :: "error \<Rightarrow> string" where
  \<comment> \<open>\<open>str(e)\<close>\<close>
  "error_str e = (case e of StorageError m \<Rightarrow> m | OverflowError m \<Rightarrow> m | TypeError m \<Rightarrow> m)"

text \<open>Decimal text of a number, as an f-string or an error message prints it.\<close>

fun show_nat :: "nat \<Rightarrow> string" where
  "show_nat n =
     (if n < 10 then [char_of (48 + n)]
      else show_nat (n div 10) @ [char_of (48 + n mod 10)])"

declare show_nat.simps [simp del]

definition show_int :: "int \<Rightarrow> string" where
  "show_int i = (if i < 0 then CHR ''-'' # show_nat (nat (- i)) else show_nat (nat i))"

text \<open>The pydantic models.\<close>

record LearningProgress =
  lp_id :: "nat option"
  lp_package_name :: string
  lp_topic :: string
  lp_completed :: bool
  lp_score :: real
  lp_last_accessed :: "timestamp option"
  lp_total_time_seconds :: int

record QuizResult =
  qr_id :: "nat option"
  qr_package_name :: string
  qr_question :: string
  qr_user_answer :: "string option"
  qr_correct :: bool
  qr_timestamp :: "timestamp option"

record StudentProfile =
  sp_id :: "nat option"
  sp_mastered_concepts :: "string list"
  sp_weak_concepts :: "string list"
  sp_learning_style :: string
  sp_last_session :: "timestamp option"

text \<open>The rows of the four tables of \<open>SCHEMA\<close>.\<close>

record progress_row =
  pr_id :: nat
  pr_package_name :: string
  pr_topic :: string
  pr_completed :: bool
  pr_score :: real
  pr_last_accessed :: "timestamp option"
  pr_total_time_seconds :: int

record quiz_row =
  qz_id :: nat
  qz_package_name :: string
  qz_question :: string
  qz_user_answer :: "string option"
  qz_correct :: bool
  qz_timestamp :: "timestamp option"

record profile_row =
  pf_id :: nat
  pf_mastered_concepts :: "string list"
  pf_weak_concepts :: "string list"
  pf_learning_style :: string
  pf_last_session :: "timestamp option"

record cache_row =
  lc_id :: nat
  lc_package_name :: string
  lc_content :: pyvalue
  lc_created_at :: timestamp
  lc_expires_at :: timestamp

record store =
  learning_progress :: "progress_row list"
  learning_progress_seq :: nat
  quiz_results :: "quiz_row list"
  quiz_results_seq :: nat
  student_profile :: "profile_row list"
  student_profile_seq :: nat
  lesson_cache :: "cache_row list"
  lesson_cache_seq :: nat

definition empty_store :: store where
  \<comment> \<open>the file right after \<open>_init_database\<close> on a new path\<close>
  "empty_store = \<lparr>learning_progress = [], learning_progress_seq = 0,
     quiz_results = [], quiz_results_seq = 0,
     student_profile = [], student_profile_seq = 0,
     lesson_cache = [], lesson_cache_seq = 0\<rparr>"

text \<open>
  The constraints \<open>UNIQUE(package_name, topic)\<close> and \<open>package_name UNIQUE\<close> of the schema:
  SQLite keeps them, so they hold of every state of the file.
\<close>

definition progress_key :: "progress_row \<Rightarrow> string \<times> string" where
  "progress_key r = (pr_package_name r, pr_topic r)"

definition unique_progress :: "store \<Rightarrow> bool" where
  "unique_progress s = distinct (map progress_key (learning_progress s))"

definition unique_cache :: "store \<Rightarrow> bool" where
  "unique_cache s = distinct (map lc_package_name (lesson_cache s))"

section \<open>Learning progress methods\<close>

definition to_LearningProgress :: "progress_row \<Rightarrow> LearningProgress" where
  "to_LearningProgress r = \<lparr>lp_id = Some (pr_id r), lp_package_name = pr_package_name r,
     lp_topic = pr_topic r, lp_completed = pr_completed r, lp_score = pr_score r,
     lp_last_accessed = pr_last_accessed r,
     lp_total_time_seconds = pr_total_time_seconds r\<rparr>"

definition select_progress :: "string \<Rightarrow> string \<Rightarrow> store \<Rightarrow> progress_row option" where
  \<comment> \<open>SELECT * FROM learning\_progress WHERE package\_name = ? AND topic = ?; fetchone()\<close>
  "select_progress package_name topic s =
     find (\<lambda>r. pr_package_name r = package_name \<and> pr_topic r = topic) (learning_progress s)"

definition get_progress :: "string \<Rightarrow> string \<Rightarrow> store \<Rightarrow> LearningProgress option" where
  "get_progress package_name topic s =
     (case select_progress package_name topic s of
        Some row \<Rightarrow> Some (to_LearningProgress row)
      | None \<Rightarrow> None)"

text \<open>
  The statement of \<open>upsert_progress\<close>: INSERT ... ON CONFLICT(package\_name, topic) DO
  UPDATE. Binding the parameters comes first: an integer outside the signed 64-bit range
  of SQLite's INTEGER makes \<open>execute\<close> raise OverflowError before the statement runs, and
  nothing changes. Then SQLite draws the new rowid before it checks the constraint, so the
  counter advances on both paths. The first component of the result is
  \<open>cursor.lastrowid\<close>: the connection is new, so it is 0 unless this statement inserted a
  row (the update path leaves it alone).
\<close>

definition in_int64 :: "int \<Rightarrow> bool" where
  "in_int64 i = (- (2 ^ 63) \<le> i \<and> i < 2 ^ 63)"

definition INT_TOO_LARGE :: string where
  "INT_TOO_LARGE = ''Python int too large to convert to SQLite INTEGER''"

definition inserted_row :: "nat \<Rightarrow> timestamp \<Rightarrow> LearningProgress \<Rightarrow> progress_row" where
  \<comment> \<open>VALUES (?, ?, ?, ?, ?, ?) under the new rowid\<close>
  "inserted_row rowid now progress =
     \<lparr>pr_id = rowid, pr_package_name = lp_package_name progress,
      pr_topic = lp_topic progress, pr_completed = lp_completed progress,
      pr_score = lp_score progress, pr_last_accessed = Some now,
      pr_total_time_seconds = lp_total_time_seconds progress\<rparr>"

definition updated_row :: "timestamp \<Rightarrow> LearningProgress \<Rightarrow> progress_row \<Rightarrow> progress_row" where
  \<comment> \<open>DO UPDATE SET completed, score, last\_accessed, total\_time\_seconds = excluded.*\<close>
  "updated_row now progress r =
     r\<lparr>pr_completed := lp_completed progress, pr_score := lp_score progress,
       pr_last_accessed := Some now,
       pr_total_time_seconds := lp_total_time_seconds progress\<rparr>"

definition exec_upsert_progress :: "timestamp \<Rightarrow> LearningProgress \<Rightarrow> store \<Rightarrow> error + (nat \<times> store)" where
  "exec_upsert_progress now progress s =
     (if \<not> in_int64 (lp_total_time_seconds progress)
      then Inl (OverflowError INT_TOO_LARGE)
      else let rowid = Suc (learning_progress_seq s);
               conflict = (\<lambda>r. pr_package_name r = lp_package_name progress
                             \<and> pr_topic r = lp_topic progress)
           in if \<exists>r \<in> set (learning_progress s). conflict r
              then Inr (0, s\<lparr>learning_progress :=
                                map (\<lambda>r. if conflict r then updated_row now progress r else r)
                                    (learning_progress s),
                              learning_progress_seq := rowid\<rparr>)
              else Inr (rowid, s\<lparr>learning_progress :=
                                    learning_progress s @ [inserted_row rowid now progress],
                                  learning_progress_seq := rowid\<rparr>))"

definition upsert_progress :: "timestamp \<Rightarrow> LearningProgress \<Rightarrow> store \<Rightarrow> error + (nat \<times> store)" where
  "upsert_progress now progress s =
     (case exec_upsert_progress now progress s of
        Inl e \<Rightarrow> Inl e
      | Inr (lastrowid, s') \<Rightarrow>
          if lastrowid = 0
          then (case select_progress (lp_package_name progress) (lp_topic progress) s' of
                  Some row \<Rightarrow> Inr (pr_id row, s')
                | None \<Rightarrow> Inr (0, s'))
          else Inr (lastrowid, s'))"

definition mark_topic_completed :: "timestamp \<Rightarrow> string \<Rightarrow> string \<Rightarrow> real \<Rightarrow> store \<Rightarrow> error + store" where
  \<comment> \<open>the record is built with the model's defaults: no id, no last access, total time 0\<close>
  "mark_topic_completed now package_name topic score s =
     (case upsert_progress now
            \<lparr>lp_id = None, lp_package_name = package_name, lp_topic = topic,
             lp_completed = True, lp_score = score, lp_last_accessed = None,
             lp_total_time_seconds = 0\<rparr> s of
        Inl e \<Rightarrow> Inl e
      | Inr (_, s') \<Rightarrow> Inr s')"

text \<open>
  \<open>get_completion_stats\<close>: the aggregates of SQL are NULL on no rows (\<open>COUNT\<close> apart), and
  Python's \<open>x or d\<close> gives \<open>d\<close> for NULL and for zero. \<open>SUM\<close> over integers adds the rows
  in the order the query visits them (rowid order, through the index on the package
  name) and fails with \<open>integer overflow\<close> as soon as the running total leaves the signed
  64-bit range; sqlite3 raises that as an OperationalError.
\<close>

fun sum_from :: "int \<Rightarrow> int list \<Rightarrow> error + int" where
  "sum_from acc [] = Inr acc"
| "sum_from acc (x # xs) =
     (if in_int64 (acc + x) then sum_from (acc + x) xs
      else Inl (StorageError ''integer overflow''))"

definition sql_sum :: "int list \<Rightarrow> error + int option" where
  "sql_sum xs =
     (if xs = [] then Inr None
      else case sum_from 0 xs of Inl e \<Rightarrow> Inl e | Inr t \<Rightarrow> Inr (Some t))"

definition sql_avg :: "real list \<Rightarrow> real option" where
  "sql_avg xs = (if xs = [] then None else Some (sum_list xs / real (length xs)))"

definition py_or :: "'a::zero option \<Rightarrow> 'a \<Rightarrow> 'a" where
  "py_or x d = (case x of None \<Rightarrow> d | Some v \<Rightarrow> if v = 0 then d else v)"

record completion_stats =
  total :: int
  completed :: int
  avg_score :: real
  total_time_seconds :: int

definition get_completion_stats :: "string \<Rightarrow> store \<Rightarrow> error + completion_stats" where
  "get_completion_stats package_name s =
     (let rows = filter (\<lambda>r. pr_package_name r = package_name) (learning_progress s)
      in case sql_sum (map (\<lambda>r. if pr_completed r then 1 else 0) rows) of
           Inl e \<Rightarrow> Inl e
         | Inr completed_sum \<Rightarrow>
             (case sql_sum (map pr_total_time_seconds rows) of
                Inl e \<Rightarrow> Inl e
              | Inr total_time \<Rightarrow>
                  Inr \<lparr>total = py_or (Some (int (length rows))) 0,
                       completed = py_or completed_sum 0,
                       avg_score = py_or (sql_avg (map pr_score rows)) 0,
                       total_time_seconds = py_or total_time 0\<rparr>))"

definition reset_progress :: "string option \<Rightarrow> store \<Rightarrow> nat \<times> store" where
  \<comment> \<open>\<open>if package_name:\<close> is false for None and for the empty string\<close>
  "reset_progress package_name s =
     (case package_name of
        Some p \<Rightarrow>
          if p \<noteq> []
          then (length (filter (\<lambda>r. pr_package_name r = p) (learning_progress s)),
                s\<lparr>learning_progress :=
                    filter (\<lambda>r. pr_package_name r \<noteq> p) (learning_progress s)\<rparr>)
          else (length (learning_progress s), s\<lparr>learning_progress := []\<rparr>)
      | None \<Rightarrow> (length (learning_progress s), s\<lparr>learning_progress := []\<rparr>))"

section \<open>Quiz result methods\<close>

definition add_quiz_result :: "timestamp \<Rightarrow> QuizResult \<Rightarrow> store \<Rightarrow> nat \<times> store" where
  \<comment> \<open>the timestamp column takes its default, SQLite's CURRENT\_TIMESTAMP\<close>
  "add_quiz_result now result s =
     (let rowid = Suc (quiz_results_seq s)
      in (rowid, s\<lparr>quiz_results := quiz_results s @
                     [\<lparr>qz_id = rowid, qz_package_name = qr_package_name result,
                       qz_question = qr_question result,
                       qz_user_answer = qr_user_answer result,
                       qz_correct = qr_correct result, qz_timestamp = Some now\<rparr>],
                   quiz_results_seq := rowid\<rparr>))"

section \<open>Student profile methods\<close>

definition to_StudentProfile :: "profile_row \<Rightarrow> StudentProfile" where
  "to_StudentProfile r = \<lparr>sp_id = Some (pf_id r),
     sp_mastered_concepts = pf_mastered_concepts r,
     sp_weak_concepts = pf_weak_concepts r,
     sp_learning_style = pf_learning_style r,
     sp_last_session = pf_last_session r\<rparr>"

definition default_StudentProfile :: StudentProfile where
  "default_StudentProfile = \<lparr>sp_id = None, sp_mastered_concepts = [],
     sp_weak_concepts = [], sp_learning_style = ''reading'', sp_last_session = None\<rparr>"

definition select_profile :: "store \<Rightarrow> profile_row option" where
  \<comment> \<open>\<open>_SELECT_PROFILE\<close>: SELECT * FROM student\_profile LIMIT 1; fetchone()\<close>
  "select_profile s = (case student_profile s of [] \<Rightarrow> None | r # _ \<Rightarrow> Some r)"

definition create_default_profile :: "store \<Rightarrow> StudentProfile \<times> store" where
  \<comment> \<open>INSERT OR IGNORE: the table has no constraint a new row could violate, so it inserts\<close>
  "create_default_profile s =
     (let profile = default_StudentProfile;
          rowid = Suc (student_profile_seq s);
          s' = s\<lparr>student_profile := student_profile s @
                    [\<lparr>pf_id = rowid,
                      pf_mastered_concepts = sp_mastered_concepts profile,
                      pf_weak_concepts = sp_weak_concepts profile,
                      pf_learning_style = sp_learning_style profile,
                      pf_last_session = None\<rparr>],
                  student_profile_seq := rowid\<rparr>
      in case select_profile s' of
           Some row \<Rightarrow> (to_StudentProfile row, s')
         | None \<Rightarrow> (profile, s'))"

definition get_student_profile :: "store \<Rightarrow> StudentProfile \<times> store" where
  "get_student_profile s =
     (case select_profile s of
        Some row \<Rightarrow> (to_StudentProfile row, s)
      | None \<Rightarrow> create_default_profile s)"

definition update_student_profile :: "timestamp \<Rightarrow> StudentProfile \<Rightarrow> store \<Rightarrow> store" where
  \<comment> \<open>UPDATE ... WHERE id = (SELECT id FROM student\_profile LIMIT 1)\<close>
  "update_student_profile now profile s =
     (case select_profile s of
        None \<Rightarrow> s
      | Some first \<Rightarrow>
          s\<lparr>student_profile :=
              map (\<lambda>r. if pf_id r = pf_id first
                        then r\<lparr>pf_mastered_concepts := sp_mastered_concepts profile,
                               pf_weak_concepts := sp_weak_concepts profile,
                               pf_learning_style := sp_learning_style profile,
                               pf_last_session := Some now\<rparr>
                        else r) (student_profile s)\<rparr>)"

definition NONE_SUBSCRIPT :: string where
  \<comment> \<open>the text of the TypeError that \<open>row["..."]\<close> raises when \<open>row\<close> is None\<close>
  "NONE_SUBSCRIPT = [CHR 0x27] @ ''NoneType'' @ [CHR 0x27] @ '' object is not subscriptable''"

definition profile_row_or_create :: "store \<Rightarrow> error + (profile_row \<times> store)" where
  \<comment> \<open>the opening of both concept methods: read the row, create the default one if absent
     and read again; the first use of a missing row raises\<close>
  "profile_row_or_create s =
     (case select_profile s of
        Some row \<Rightarrow> Inr (row, s)
      | None \<Rightarrow>
          (let s' = snd (create_default_profile s)
           in case select_profile s' of
                Some row \<Rightarrow> Inr (row, s')
              | None \<Rightarrow> Inl (TypeError NONE_SUBSCRIPT)))"

definition add_mastered_concept :: "timestamp \<Rightarrow> string \<Rightarrow> store \<Rightarrow> error + store" where
  "add_mastered_concept now concept s =
     (case profile_row_or_create s of
        Inl e \<Rightarrow> Inl e
      | Inr (row, s') \<Rightarrow>
          (let mastered = pf_mastered_concepts row;
               weak = pf_weak_concepts row
           in if concept \<notin> set mastered
              then (let mastered' = mastered @ [concept];
                        weak' = (if concept \<in> set weak then remove1 concept weak else weak)
                    in Inr (s'\<lparr>student_profile :=
                              map (\<lambda>r. if pf_id r = pf_id row
                                        then r\<lparr>pf_mastered_concepts := mastered',
                                               pf_weak_concepts := weak',
                                               pf_last_session := Some now\<rparr>
                                        else r) (student_profile s')\<rparr>))
              else Inr s'))"

definition add_weak_concept :: "timestamp \<Rightarrow> string \<Rightarrow> store \<Rightarrow> error + store" where
  "add_weak_concept now concept s =
     (case profile_row_or_create s of
        Inl e \<Rightarrow> Inl e
      | Inr (row, s') \<Rightarrow>
          (let mastered = pf_mastered_concepts row;
               weak = pf_weak_concepts row
           in if concept \<notin> set weak \<and> concept \<notin> set mastered
              then (let weak' = weak @ [concept]
                    in Inr (s'\<lparr>student_profile :=
                              map (\<lambda>r. if pf_id r = pf_id row
                                        then r\<lparr>pf_weak_concepts := weak',
                                               pf_last_session := Some now\<rparr>
                                        else r) (student_profile s')\<rparr>))
              else Inr s'))"

text \<open>
  What a reader of the profile sees of the two concept lists, and the runs of the two
  concept methods.
\<close>

definition concepts :: "store \<Rightarrow> string list \<times> string list" where
  "concepts s = (let p = fst (get_student_profile s)
                 in (sp_mastered_concepts p, sp_weak_concepts p))"

definition concepts_ok :: "store \<Rightarrow> bool" where
  "concepts_ok s = (distinct (snd (concepts s))
     \<and> set (fst (concepts s)) \<inter> set (snd (concepts s)) = {})"

datatype concept_op = AddMastered string | AddWeak string

fun apply_concept_ops :: "(timestamp \<times> concept_op) list \<Rightarrow> store \<Rightarrow> error + store" where
  "apply_concept_ops [] s = Inr s"
| "apply_concept_ops ((now, AddMastered c) # ops) s =
     (case add_mastered_concept now c s of Inl e \<Rightarrow> Inl e | Inr s' \<Rightarrow> apply_concept_ops ops s')"
| "apply_concept_ops ((now, AddWeak c) # ops) s =
     (case add_weak_concept now c s of Inl e \<Rightarrow> Inl e | Inr s' \<Rightarrow> apply_concept_ops ops s')"

section \<open>Lesson cache methods\<close>

text \<open>
  \<open>now + timedelta(hours=ttl_hours)\<close> raises OverflowError in three ways: the day count of
  the timedelta does not fit a C int, it exceeds 999999999 in magnitude, or the sum leaves
  the datetime range. The stored content is the JSON text of the lesson; the model keeps
  the JSON value that text denotes.
\<close>

definition expiry_time :: "timestamp \<Rightarrow> int \<Rightarrow> error + timestamp" where
  "expiry_time now ttl_hours =
     (let days = ttl_hours div 24;
          expires = now + ttl_hours * MICROS_PER_HOUR
      in if days < - (2 ^ 31) \<or> 2 ^ 31 \<le> days
         then Inl (OverflowError ''Python int too large to convert to C int'')
         else if 999999999 < \<bar>days\<bar>
         then Inl (OverflowError (''days='' @ show_int days
                                  @ ''; must have magnitude <= 999999999''))
         else if expires < 0 \<or> MAX_TIMESTAMP \<le> expires
         then Inl (OverflowError ''date value out of range'')
         else Inr expires)"

definition cache_lesson :: "timestamp \<Rightarrow> string \<Rightarrow> pyvalue \<Rightarrow> int \<Rightarrow> store \<Rightarrow> error + store" where
  \<comment> \<open>INSERT ... ON CONFLICT(package\_name) DO UPDATE; created\_at is SQLite's
     CURRENT\_TIMESTAMP, taken at the same instant\<close>
  "cache_lesson now package_name content ttl_hours s =
     (case expiry_time now ttl_hours of
        Inl e \<Rightarrow> Inl e
      | Inr expires_at \<Rightarrow>
          (let rowid = Suc (lesson_cache_seq s);
               conflict = (\<lambda>r. lc_package_name r = package_name)
           in if \<exists>r \<in> set (lesson_cache s). conflict r
              then Inr (s\<lparr>lesson_cache :=
                             map (\<lambda>r. if conflict r
                                       then r\<lparr>lc_content := content, lc_created_at := now,
                                              lc_expires_at := expires_at\<rparr>
                                       else r) (lesson_cache s),
                           lesson_cache_seq := rowid\<rparr>)
              else Inr (s\<lparr>lesson_cache := lesson_cache s @
                             [\<lparr>lc_id = rowid, lc_package_name = package_name,
                               lc_content = content, lc_created_at = now,
                               lc_expires_at = expires_at\<rparr>],
                           lesson_cache_seq := rowid\<rparr>)))"

definition get_cached_lesson :: "timestamp \<Rightarrow> string \<Rightarrow> store \<Rightarrow> pyvalue option" where
  \<comment> \<open>SELECT content FROM lesson\_cache WHERE package\_name = ? AND expires\_at > ?\<close>
  "get_cached_lesson now package_name s =
     (case find (\<lambda>r. lc_package_name r = package_name \<and> now < lc_expires_at r)
                (lesson_cache s) of
        Some row \<Rightarrow> Some (lc_content row)
      | None \<Rightarrow> None)"

definition clear_expired_cache :: "timestamp \<Rightarrow> store \<Rightarrow> nat \<times> store" where
  \<comment> \<open>DELETE FROM lesson\_cache WHERE expires\_at <= ?; rowcount\<close>
  "clear_expired_cache now s =
     (length (filter (\<lambda>r. lc_expires_at r \<le> now) (lesson_cache s)),
      s\<lparr>lesson_cache := filter (\<lambda>r. \<not> lc_expires_at r \<le> now) (lesson_cache s)\<rparr>)"

section \<open>Ordered listings of the progress table\<close>

definition get_all_progress :: "string option \<Rightarrow> store \<Rightarrow> LearningProgress list" where
  \<comment> \<open>ORDER BY topic for one package, ORDER BY package\_name, topic for all\<close>
  "get_all_progress package_name s =
     map to_LearningProgress
       (case package_name of
          Some p \<Rightarrow>
            if p \<noteq> []
            then sort_key pr_topic (filter (\<lambda>r. pr_package_name r = p) (learning_progress s))
            else sort_key (\<lambda>r. (pr_package_name r, pr_topic r)) (learning_progress s)
        | None \<Rightarrow> sort_key (\<lambda>r. (pr_package_name r, pr_topic r)) (learning_progress s))"

definition get_packages_studied :: "store \<Rightarrow> string list" where
  \<comment> \<open>SELECT DISTINCT package\_name ... ORDER BY package\_name\<close>
  "get_packages_studied s = sort (remdups (map pr_package_name (learning_progress s)))"

section \<open>The database file under a tool (tools.py)\<close>

text \<open>
  The database file as a tool meets it: available with its tables, or failing, in which
  case connecting or running a statement raises the given error. The store has no
  exception handler, and \<open>_get_connection\<close> only closes the connection on the way out, so
  a method called on a failing file raises that error.
\<close>

datatype db = Available store | Unavailable error

definition call :: "db \<Rightarrow> (store \<Rightarrow> 'a \<times> store) \<Rightarrow> error + ('a \<times> db)" where
  "call d method =
     (case d of
        Unavailable e \<Rightarrow> Inl e
      | Available s \<Rightarrow> (case method s of (r, s') \<Rightarrow> Inr (r, Available s')))"

definition call_raising :: "db \<Rightarrow> (store \<Rightarrow> error + store) \<Rightarrow> error + db" where
  "call_raising d method =
     (case d of
        Unavailable e \<Rightarrow> Inl e
      | Available s \<Rightarrow> (case method s of Inl e \<Rightarrow> Inl e | Inr s' \<Rightarrow> Inr (Available s')))"

definition call_raising_value :: "db \<Rightarrow> (store \<Rightarrow> error + ('a \<times> store)) \<Rightarrow> error + ('a \<times> db)" where
  "call_raising_value d method =
     (case d of
        Unavailable e \<Rightarrow> Inl e
      | Available s \<Rightarrow>
          (case method s of Inl e \<Rightarrow> Inl e | Inr (r, s') \<Rightarrow> Inr (r, Available s')))"

definition truthy :: "pyvalue \<Rightarrow> bool" where
  "truthy v =
     (case v of
        PNone \<Rightarrow> False
      | PBool b \<Rightarrow> b
      | PInt i \<Rightarrow> i \<noteq> 0
      | PFloat x \<Rightarrow> x \<noteq> 0
      | PStr t \<Rightarrow> t \<noteq> []
      | PTime t \<Rightarrow> True
      | PList xs \<Rightarrow> xs \<noteq> []
      | PDict kvs \<Rightarrow> kvs \<noteq> [])"

definition given :: "string option \<Rightarrow> bool" where
  \<comment> \<open>the truth value of an optional string: neither None nor empty\<close>
  "given x = (case x of None \<Rightarrow> False | Some t \<Rightarrow> t \<noteq> [])"

definition py_str :: "string option \<Rightarrow> string" where
  \<comment> \<open>how an f-string prints an optional string\<close>
  "py_str x = (case x of None \<Rightarrow> ''None'' | Some t \<Rightarrow> t)"

definition opt_value :: "('a \<Rightarrow> pyvalue) \<Rightarrow> 'a option \<Rightarrow> pyvalue" where
  "opt_value f x = (case x of None \<Rightarrow> PNone | Some v \<Rightarrow> f v)"

fun join :: "string \<Rightarrow> string list \<Rightarrow> string" where
  "join sep [] = []"
| "join sep [x] = x"
| "join sep (x # y # ys) = x @ sep @ join sep (y # ys)"

definition repr_str_list :: "string list \<Rightarrow> string" where
  \<comment> \<open>\<open>str\<close> of a list of plain strings: each in single quotes\<close>
  "repr_str_list xs = ''['' @ join '', '' (map (\<lambda>x. [CHR 0x27] @ x @ [CHR 0x27]) xs) @ '']''"

definition failure :: "string \<Rightarrow> pyvalue" where
  "failure msg = PDict [(''success'', PBool False), (''error'', PStr msg)]"

section \<open>Lesson loader tool (tools.py)\<close>

definition LessonLoaderTool_run :: "timestamp \<Rightarrow> string \<Rightarrow> bool \<Rightarrow> db \<Rightarrow> pyvalue" where
  "LessonLoaderTool_run now package_name force_fresh d =
     (if force_fresh
      then PDict [(''success'', PBool True), (''cache_hit'', PBool False),
                  (''lesson'', PNone), (''reason'', PStr ''Force fresh requested'')]
      else case call d (\<lambda>s. (get_cached_lesson now package_name s, s)) of
             Inr (cached, _) \<Rightarrow>
               if (case cached of None \<Rightarrow> False | Some lesson \<Rightarrow> truthy lesson)
               then PDict [(''success'', PBool True), (''cache_hit'', PBool True),
                           (''lesson'', opt_value id cached),
                           (''cost_saved_gbp'', PFloat 0.02)]
               else PDict [(''success'', PBool True), (''cache_hit'', PBool False),
                           (''lesson'', PNone), (''reason'', PStr ''No valid cache found'')]
           | Inl e \<Rightarrow>
               PDict [(''success'', PBool False), (''cache_hit'', PBool False),
                      (''lesson'', PNone), (''error'', PStr (error_str e))])"

section \<open>Progress tracker tool (tools.py)\<close>

text \<open>
  The arguments of \<open>_run\<close>: the four named ones and the keyword arguments that some
  handler reads. Every handler ignores the keywords it does not name.
\<close>

record tracker_args =
  ta_package_name :: "string option"
  ta_topic :: "string option"
  ta_score :: "real option"
  ta_time_seconds :: "int option"
  ta_completed :: "bool option"
  ta_learning_style :: "string option"
  ta_concept :: "string option"

definition ERR_PKG_TOPIC_REQUIRED :: string where
  "ERR_PKG_TOPIC_REQUIRED = ''package_name and topic required''"

definition package_and_topic :: "tracker_args \<Rightarrow> (string \<times> string) option" where
  \<comment> \<open>the guard \<open>if not package_name or not topic\<close>, and the two names when it passes\<close>
  "package_and_topic a =
     (case (ta_package_name a, ta_topic a) of
        (Some p, Some t) \<Rightarrow> if p = [] \<or> t = [] then None else Some (p, t)
      | _ \<Rightarrow> None)"

definition ProgressTrackerTool_get_progress :: "tracker_args \<Rightarrow> db \<Rightarrow> error + (pyvalue \<times> db)" where
  "ProgressTrackerTool_get_progress a d =
     (case package_and_topic a of
        None \<Rightarrow> Inr (failure ERR_PKG_TOPIC_REQUIRED, d)
      | Some (package_name, topic) \<Rightarrow>
          (case call d (\<lambda>s. (get_progress package_name topic s, s)) of
             Inl e \<Rightarrow> Inl e
           | Inr (Some progress, d') \<Rightarrow>
               Inr (PDict [(''success'', PBool True),
                      (''progress'', PDict
                         [(''package_name'', PStr (lp_package_name progress)),
                          (''topic'', PStr (lp_topic progress)),
                          (''completed'', PBool (lp_completed progress)),
                          (''score'', PFloat (lp_score progress)),
                          (''last_accessed'', opt_value PTime (lp_last_accessed progress)),
                          (''total_time_seconds'', PInt (lp_total_time_seconds progress))])],
                    d')
           | Inr (None, d') \<Rightarrow>
               Inr (PDict [(''success'', PBool True), (''progress'', PNone),
                           (''message'', PStr ''No progress found'')], d')))"

definition ProgressTrackerTool_get_all_progress :: "tracker_args \<Rightarrow> db \<Rightarrow> error + (pyvalue \<times> db)" where
  "ProgressTrackerTool_get_all_progress a d =
     (case call d (\<lambda>s. (get_all_progress (ta_package_name a) s, s)) of
        Inl e \<Rightarrow> Inl e
      | Inr (progress_list, d') \<Rightarrow>
          Inr (PDict [(''success'', PBool True),
                 (''progress'', PList (map (\<lambda>p. PDict
                    [(''package_name'', PStr (lp_package_name p)),
                     (''topic'', PStr (lp_topic p)),
                     (''completed'', PBool (lp_completed p)),
                     (''score'', PFloat (lp_score p)),
                     (''total_time_seconds'', PInt (lp_total_time_seconds p))]) progress_list)),
                 (''count'', PInt (int (length progress_list)))], d'))"

definition ProgressTrackerTool_mark_completed :: "timestamp \<Rightarrow> tracker_args \<Rightarrow> db \<Rightarrow> error + (pyvalue \<times> db)" where
  "ProgressTrackerTool_mark_completed now a d =
     (case package_and_topic a of
        None \<Rightarrow> Inr (failure ERR_PKG_TOPIC_REQUIRED, d)
      | Some (package_name, topic) \<Rightarrow>
          (let effective_score = (case ta_score a of Some x \<Rightarrow> x | None \<Rightarrow> 1)
           in case call_raising d (mark_topic_completed now package_name topic effective_score) of
                Inl e \<Rightarrow> Inl e
              | Inr d' \<Rightarrow>
                  Inr (PDict [(''success'', PBool True),
                         (''message'', PStr (''Marked '' @ package_name @ ''/'' @ topic
                                             @ '' as completed'')),
                         (''score'', PFloat effective_score)], d')))"

definition ProgressTrackerTool_update_progress :: "timestamp \<Rightarrow> tracker_args \<Rightarrow> db \<Rightarrow> error + (pyvalue \<times> db)" where
  "ProgressTrackerTool_update_progress now a d =
     (case package_and_topic a of
        None \<Rightarrow> Inr (failure ERR_PKG_TOPIC_REQUIRED, d)
      | Some (package_name, topic) \<Rightarrow>
          (case call d (\<lambda>s. (get_progress package_name topic s, s)) of
             Inl e \<Rightarrow> Inl e
           | Inr (existing, d1) \<Rightarrow>
               (let total_time =
                      (case existing of Some ex \<Rightarrow> lp_total_time_seconds ex | None \<Rightarrow> 0)
                      + py_or (ta_time_seconds a) 0;
                    final_completed =
                      (case ta_completed a of
                         Some c \<Rightarrow> c
                       | None \<Rightarrow> (case existing of Some ex \<Rightarrow> lp_completed ex | None \<Rightarrow> False));
                    final_score =
                      (case ta_score a of
                         Some x \<Rightarrow> x
                       | None \<Rightarrow> (case existing of Some ex \<Rightarrow> lp_score ex | None \<Rightarrow> 0));
                    progress = \<lparr>lp_id = None, lp_package_name = package_name,
                                 lp_topic = topic, lp_completed = final_completed,
                                 lp_score = final_score, lp_last_accessed = None,
                                 lp_total_time_seconds = total_time\<rparr>
                in case call_raising_value d1 (upsert_progress now progress) of
                     Inl e \<Rightarrow> Inl e
                   | Inr (row_id, d2) \<Rightarrow>
                       Inr (PDict [(''success'', PBool True),
                              (''row_id'', PInt (int row_id)),
                              (''total_time_seconds'', PInt total_time)], d2))))"

definition ProgressTrackerTool_get_stats :: "tracker_args \<Rightarrow> db \<Rightarrow> error + (pyvalue \<times> db)" where
  "ProgressTrackerTool_get_stats a d =
     (if \<not> given (ta_package_name a)
      then Inr (failure ''package_name required'', d)
      else case call_raising_value d
                  (\<lambda>s. case get_completion_stats (py_str (ta_package_name a)) s of
                         Inl e \<Rightarrow> Inl e | Inr stats \<Rightarrow> Inr (stats, s)) of
             Inl e \<Rightarrow> Inl e
           | Inr (stats, d') \<Rightarrow>
               Inr (PDict [(''success'', PBool True),
                      (''stats'', PDict
                         [(''total'', PInt (total stats)),
                          (''completed'', PInt (completed stats)),
                          (''avg_score'', PFloat (avg_score stats)),
                          (''total_time_seconds'', PInt (total_time_seconds stats))]),
                      (''completion_percentage'',
                         if total stats > 0
                         then PFloat (real_of_int (completed stats) / real_of_int (total stats) * 100)
                         else PInt 0)], d'))"

definition ProgressTrackerTool_get_profile :: "tracker_args \<Rightarrow> db \<Rightarrow> error + (pyvalue \<times> db)" where
  "ProgressTrackerTool_get_profile a d =
     (case call d get_student_profile of
        Inl e \<Rightarrow> Inl e
      | Inr (profile, d') \<Rightarrow>
          Inr (PDict [(''success'', PBool True),
                 (''profile'', PDict
                    [(''mastered_concepts'', PList (map PStr (sp_mastered_concepts profile))),
                     (''weak_concepts'', PList (map PStr (sp_weak_concepts profile))),
                     (''learning_style'', PStr (sp_learning_style profile)),
                     (''last_session'', opt_value PTime (sp_last_session profile))])], d'))"

definition ProgressTrackerTool_update_profile :: "timestamp \<Rightarrow> tracker_args \<Rightarrow> db \<Rightarrow> error + (pyvalue \<times> db)" where
  "ProgressTrackerTool_update_profile now a d =
     (case call d get_student_profile of
        Inl e \<Rightarrow> Inl e
      | Inr (profile, d1) \<Rightarrow>
          (let profile' = (case ta_learning_style a of
                             Some style \<Rightarrow> profile\<lparr>sp_learning_style := style\<rparr>
                           | None \<Rightarrow> profile)
           in case call d1 (\<lambda>s. ((), update_student_profile now profile' s)) of
                Inl e \<Rightarrow> Inl e
              | Inr (_, d2) \<Rightarrow>
                  Inr (PDict [(''success'', PBool True),
                              (''message'', PStr ''Profile updated'')], d2)))"

definition ProgressTrackerTool_add_mastered_concept :: "timestamp \<Rightarrow> tracker_args \<Rightarrow> db \<Rightarrow> error + (pyvalue \<times> db)" where
  "ProgressTrackerTool_add_mastered_concept now a d =
     (if \<not> given (ta_concept a)
      then Inr (failure ''concept required'', d)
      else case call_raising d (add_mastered_concept now (py_str (ta_concept a))) of
             Inl e \<Rightarrow> Inl e
           | Inr d' \<Rightarrow>
               Inr (PDict [(''success'', PBool True),
                      (''message'', PStr (''Added mastered concept: '' @ py_str (ta_concept a)))],
                    d'))"

definition ProgressTrackerTool_add_weak_concept :: "timestamp \<Rightarrow> tracker_args \<Rightarrow> db \<Rightarrow> error + (pyvalue \<times> db)" where
  "ProgressTrackerTool_add_weak_concept now a d =
     (if \<not> given (ta_concept a)
      then Inr (failure ''concept required'', d)
      else case call_raising d (add_weak_concept now (py_str (ta_concept a))) of
             Inl e \<Rightarrow> Inl e
           | Inr d' \<Rightarrow>
               Inr (PDict [(''success'', PBool True),
                      (''message'', PStr (''Added weak concept: '' @ py_str (ta_concept a)))],
                    d'))"

definition ProgressTrackerTool_reset_progress :: "tracker_args \<Rightarrow> db \<Rightarrow> error + (pyvalue \<times> db)" where
  "ProgressTrackerTool_reset_progress a d =
     (case call d (reset_progress (ta_package_name a)) of
        Inl e \<Rightarrow> Inl e
      | Inr (count, d') \<Rightarrow>
          (let scope = (if given (ta_package_name a)
                        then ''for '' @ py_str (ta_package_name a) else ''all'')
           in Inr (PDict [(''success'', PBool True),
                     (''count'', PInt (int count)),
                     (''message'', PStr (''Reset '' @ show_nat count
                                         @ '' progress records '' @ scope))], d')))"

definition ProgressTrackerTool_get_packages_studied :: "tracker_args \<Rightarrow> db \<Rightarrow> error + (pyvalue \<times> db)" where
  "ProgressTrackerTool_get_packages_studied a d =
     (case call d (\<lambda>s. (get_packages_studied s, s)) of
        Inl e \<Rightarrow> Inl e
      | Inr (packages, d') \<Rightarrow>
          Inr (PDict [(''success'', PBool True),
                 (''packages'', PList (map PStr packages)),
                 (''count'', PInt (int (length packages)))], d'))"

definition actions :: "(string \<times> (timestamp \<Rightarrow> tracker_args \<Rightarrow> db \<Rightarrow> error + (pyvalue \<times> db))) list" where
  "actions =
     [(''get_progress'', \<lambda>now. ProgressTrackerTool_get_progress),
      (''get_all_progress'', \<lambda>now. ProgressTrackerTool_get_all_progress),
      (''mark_completed'', ProgressTrackerTool_mark_completed),
      (''update_progress'', ProgressTrackerTool_update_progress),
      (''get_stats'', \<lambda>now. ProgressTrackerTool_get_stats),
      (''get_profile'', \<lambda>now. ProgressTrackerTool_get_profile),
      (''update_profile'', ProgressTrackerTool_update_profile),
      (''add_mastered'', ProgressTrackerTool_add_mastered_concept),
      (''add_weak'', ProgressTrackerTool_add_weak_concept),
      (''reset'', \<lambda>now. ProgressTrackerTool_reset_progress),
      (''get_packages'', \<lambda>now. ProgressTrackerTool_get_packages_studied)]"

definition ProgressTrackerTool_run :: "timestamp \<Rightarrow> string \<Rightarrow> tracker_args \<Rightarrow> db \<Rightarrow> pyvalue \<times> db" where
  \<comment> \<open>the handler runs inside \<open>try\<close>; \<open>except Exception as e\<close> turns any error into a result\<close>
  "ProgressTrackerTool_run now action a d =
     (case map_of actions action of
        None \<Rightarrow>
          (failure (''Unknown action: '' @ action @ ''. Valid actions: ''
                    @ repr_str_list (map fst actions)), d)
      | Some handler \<Rightarrow>
          (case handler now a d of
             Inr (result, d') \<Rightarrow> (result, d')
           | Inl e \<Rightarrow> (failure (error_str e), d)))"

section \<open>Regular expressions of the validators (validators.py)\<close>

text \<open>
  A string is a list of characters, one \<open>char\<close> for each code point below 256. The
  patterns of the validators use literals, the classes \<open>\s\<close> and \<open>.\<close>, and the
  operators of regular languages, so \<open>re.search\<close> succeeds exactly when some substring
  belongs to the language of the pattern. Membership is decided with derivatives.
\<close>

datatype regex =
    Empty
  | Eps
  | Atom "char \<Rightarrow> bool"
  | Seq regex regex
  | Alt regex regex
  | Star regex

fun nullable :: "regex \<Rightarrow> bool" where
  "nullable Empty = False"
| "nullable Eps = True"
| "nullable (Atom p) = False"
| "nullable (Seq r s) = (nullable r \<and> nullable s)"
| "nullable (Alt r s) = (nullable r \<or> nullable s)"
| "nullable (Star r) = True"

fun deriv :: "char \<Rightarrow> regex \<Rightarrow> regex" where
  "deriv c Empty = Empty"
| "deriv c Eps = Empty"
| "deriv c (Atom p) = (if p c then Eps else Empty)"
| "deriv c (Seq r s) =
     (if nullable r then Alt (Seq (deriv c r) s) (deriv c s) else Seq (deriv c r) s)"
| "deriv c (Alt r s) = Alt (deriv c r) (deriv c s)"
| "deriv c (Star r) = Seq (deriv c r) (Star r)"

fun fullmatch :: "regex \<Rightarrow> string \<Rightarrow> bool" where
  "fullmatch r [] = nullable r"
| "fullmatch r (c # cs) = fullmatch (deriv c r) cs"

fun prefix_match :: "regex \<Rightarrow> string \<Rightarrow> bool" where
  \<comment> \<open>some prefix of the string belongs to the pattern\<close>
  "prefix_match r [] = nullable r"
| "prefix_match r (c # cs) = (nullable r \<or> prefix_match (deriv c r) cs)"

fun search :: "regex \<Rightarrow> string \<Rightarrow> bool" where
  \<comment> \<open>\<open>re.search\<close>: some substring belongs to the pattern\<close>
  "search r [] = nullable r"
| "search r (c # cs) = (prefix_match r (c # cs) \<or> search r cs)"

text \<open>The language of a pattern, against which the three matchers are justified.\<close>

inductive_set kleene :: "string set \<Rightarrow> string set" for A :: "string set" where
  kleene_Nil: "[] \<in> kleene A"
| kleene_append: "u \<in> A \<Longrightarrow> v \<in> kleene A \<Longrightarrow> u @ v \<in> kleene A"

fun lang :: "regex \<Rightarrow> string set" where
  "lang Empty = {}"
| "lang Eps = {[]}"
| "lang (Atom p) = {[c] |c. p c}"
| "lang (Seq r s) = {u @ v |u v. u \<in> lang r \<and> v \<in> lang s}"
| "lang (Alt r s) = lang r \<union> lang s"
| "lang (Star r) = kleene (lang r)"

definition isspace :: "char \<Rightarrow> bool" where
  \<comment> \<open>\<open>str.isspace\<close> and the class \<open>\s\<close>, on the code points below 256\<close>
  "isspace c = (of_char c \<in> {9, 10, 11, 12, 13, 28, 29, 30, 31, 32, 133, 160 :: nat})"

definition in_range :: "char \<Rightarrow> char \<Rightarrow> char \<Rightarrow> bool" where
  \<comment> \<open>a range \<open>lo-hi\<close> of a character class\<close>
  "in_range lo hi c = (lo \<le> c \<and> c \<le> hi)"

definition lower :: "char \<Rightarrow> char" where
  \<comment> \<open>lower case of an ASCII letter; the patterns hold no other letters\<close>
  "lower c = (if in_range (CHR ''A'') (CHR ''Z'') c then char_of (of_char c + 32 :: nat) else c)"

definition ci :: "char \<Rightarrow> regex" where
  \<comment> \<open>a literal character under \<open>re.IGNORECASE\<close>\<close>
  "ci c = Atom (\<lambda>x. lower x = lower c)"

fun lit :: "string \<Rightarrow> regex" where
  "lit [] = Eps"
| "lit (c # cs) = Seq (ci c) (lit cs)"

fun seqs :: "regex list \<Rightarrow> regex" where
  "seqs [] = Eps"
| "seqs (r # rs) = Seq r (seqs rs)"

definition ws :: regex where
  "ws = Atom isspace"

definition dot :: regex where
  \<comment> \<open>any character but the newline\<close>
  "dot = Atom (\<lambda>x. x \<noteq> CHR 0x0A)"

definition plus :: "regex \<Rightarrow> regex" where
  "plus r = Seq r (Star r)"

section \<open>Validators (validators.py)\<close>

definition MAX_PACKAGE_NAME_LENGTH :: nat where
  "MAX_PACKAGE_NAME_LENGTH = 100"

definition BLOCKED_PATTERNS :: "regex list" where
  "BLOCKED_PATTERNS =
     [seqs [lit ''rm'', plus ws, lit ''-rf''],
      seqs [lit ''rm'', plus ws, lit ''-r'', plus ws, lit ''/''],
      lit ''mkfs.'',
      seqs [lit ''dd'', plus ws, lit ''if=''],
      seqs [lit '':'', Star ws, lit ''()'', Star ws, lit ''{''],
      seqs [lit ''>'', Star ws, lit ''/dev/sd''],
      seqs [lit ''chmod'', plus ws, lit ''-R'', plus ws, lit ''777''],
      seqs [lit ''curl'', Star dot, lit ''|'', Star ws, lit ''sh''],
      seqs [lit ''wget'', Star dot, lit ''|'', Star ws, lit ''sh''],
      seqs [lit ''eval'', Star ws, lit ''(''],
      seqs [lit ''exec'', Star ws, lit ''(''],
      lit ''__import__'',
      lit ''subprocess'',
      lit ''os.system'',
      seqs [lit '';'', Star ws, lit ''rm'', plus ws],
      seqs [lit ''&&'', Star ws, lit ''rm'', plus ws],
      seqs [lit ''|'', Star ws, lit ''rm'', plus ws]]"

definition alnum :: "char \<Rightarrow> bool" where
  \<comment> \<open>the class \<open>[a-zA-Z0-9]\<close>\<close>
  "alnum c = (in_range (CHR ''a'') (CHR ''z'') c \<or> in_range (CHR ''A'') (CHR ''Z'') c
              \<or> in_range (CHR ''0'') (CHR ''9'') c)"

definition name_char :: "char \<Rightarrow> bool" where
  \<comment> \<open>the class \<open>[a-zA-Z0-9._-]\<close>\<close>
  "name_char c = (alnum c \<or> c = CHR ''.'' \<or> c = CHR ''_'' \<or> c = CHR ''-'')"

definition VALID_PACKAGE_PATTERN :: regex where
  "VALID_PACKAGE_PATTERN = Seq (Atom alnum) (Star (Atom name_char))"

definition match_to_end :: "regex \<Rightarrow> string \<Rightarrow> bool" where
  \<comment> \<open>\<open>re.match\<close> of \<open>^r$\<close>: the end anchor also holds just before a final newline\<close>
  "match_to_end r s =
     (fullmatch r s \<or> (s \<noteq> [] \<and> last s = CHR 0x0A \<and> fullmatch r (butlast s)))"

definition strip :: "string \<Rightarrow> string" where
  \<comment> \<open>\<open>str.strip()\<close>\<close>
  "strip s = rev (dropWhile isspace (rev (dropWhile isspace s)))"

definition validate_package_name :: "string \<Rightarrow> bool \<times> string option" where
  "validate_package_name package_name =
     (if package_name = [] \<or> strip package_name = []
      then (False, Some ''Package name cannot be empty'')
      else let name = strip package_name
           in if MAX_PACKAGE_NAME_LENGTH < length name
              then (False, Some (''Package name too long (max ''
                                 @ show_nat MAX_PACKAGE_NAME_LENGTH @ '' characters)''))
              else if list_ex (\<lambda>pattern. search pattern name) BLOCKED_PATTERNS
              then (False, Some ''Package name contains blocked pattern'')
              else if \<not> match_to_end VALID_PACKAGE_PATTERN name
              then (False, Some (''Package name must start with alphanumeric and contain only letters, ''
                                 @ ''numbers, dots, hyphens, and underscores''))
              else (True, None))"

section \<open>Example states\<close>

definition after_upsert :: "timestamp \<Rightarrow> LearningProgress \<Rightarrow> store \<Rightarrow> store" where
  \<comment> \<open>the tables after a call of \<open>upsert_progress\<close>, unchanged when the call raised\<close>
  "after_upsert now progress s =
     (case upsert_progress now progress s of Inr (_, s') \<Rightarrow> s' | Inl _ \<Rightarrow> s)"

definition nginx_store :: store where
  "nginx_store = empty_store\<lparr>lesson_cache :=
      [\<lparr>lc_id = 1, lc_package_name = ''nginx'',
        lc_content = PDict [(''summary'', PStr ''web server'')],
        lc_created_at = 10, lc_expires_at = 100\<rparr>,
       \<lparr>lc_id = 2, lc_package_name = ''git'',
        lc_content = PDict [(''summary'', PStr ''version control'')],
        lc_created_at = 20, lc_expires_at = 40\<rparr>],
     lesson_cache_seq := 2\<rparr>"

definition docker_basics :: LearningProgress where
  "docker_basics = \<lparr>lp_id = None, lp_package_name = ''docker'', lp_topic = ''basics'',
     lp_completed = False, lp_score = 0.5, lp_last_accessed = None,
     lp_total_time_seconds = 600\<rparr>"

definition docker_advanced :: LearningProgress where
  "docker_advanced = \<lparr>lp_id = None, lp_package_name = ''docker'', lp_topic = ''advanced'',
     lp_completed = False, lp_score = 0.5, lp_last_accessed = None,
     lp_total_time_seconds = 0\<rparr>"

definition git_and_unnamed :: store where
  "git_and_unnamed =
     after_upsert 2
            \<lparr>lp_id = None, lp_package_name = [], lp_topic = ''basics'', lp_completed = False,
             lp_score = 0, lp_last_accessed = None, lp_total_time_seconds = 0\<rparr>
       (after_upsert 1
            \<lparr>lp_id = None, lp_package_name = ''git'', lp_topic = ''basics'', lp_completed = False,
             lp_score = 0, lp_last_accessed = None, lp_total_time_seconds = 0\<rparr>
          empty_store)"

definition one_quiz_store :: store where
  "one_quiz_store =
     snd (add_quiz_result 3
            \<lparr>qr_id = None, qr_package_name = ''docker'', qr_question = ''What is Docker?'',
             qr_user_answer = Some ''A container platform'', qr_correct = True,
             qr_timestamp = None\<rparr>
       (after_upsert 2 docker_basics
         (after_upsert 1
            \<lparr>lp_id = None, lp_package_name = ''git'', lp_topic = ''basics'', lp_completed = False,
             lp_score = 0, lp_last_accessed = None, lp_total_time_seconds = 0\<rparr>
          empty_store)))"

definition unnamed_ten :: store where
  "unnamed_ten =
     after_upsert 1
            \<lparr>lp_id = None, lp_package_name = [], lp_topic = ''basics'', lp_completed = False,
             lp_score = 0, lp_last_accessed = None, lp_total_time_seconds = 10\<rparr>
          empty_store"

definition no_args :: tracker_args where
  "no_args = \<lparr>ta_package_name = None, ta_topic = None, ta_score = None,
     ta_time_seconds = None, ta_completed = None, ta_learning_style = None,
     ta_concept = None\<rparr>"

section \<open>Properties of the student profile\<close>

lemma concepts_Nil: "student_profile s = [] \<Longrightarrow> concepts s = ([], [])"
  by (simp add: concepts_def get_student_profile_def select_profile_def
      create_default_profile_def default_StudentProfile_def to_StudentProfile_def)

lemma concepts_Cons:
  "student_profile s = r # rs \<Longrightarrow> concepts s = (pf_mastered_concepts r, pf_weak_concepts r)"
  by (simp add: concepts_def get_student_profile_def select_profile_def to_StudentProfile_def)

lemma profile_row_or_create_Cons:
  "student_profile s = r # rs \<Longrightarrow> profile_row_or_create s = Inr (r, s)"
  by (simp add: profile_row_or_create_def select_profile_def)

lemma profile_row_or_create_Nil:
  "student_profile s = [] \<Longrightarrow>
   \<exists>r s'. profile_row_or_create s = Inr (r, s') \<and> student_profile s' = [r]
      \<and> pf_mastered_concepts r = [] \<and> pf_weak_concepts r = []"
  by (simp add: profile_row_or_create_def select_profile_def create_default_profile_def
      default_StudentProfile_def)

lemma profile_row_or_create_total:
  "\<exists>r rs s'. profile_row_or_create s = Inr (r, s') \<and> student_profile s' = r # rs
      \<and> concepts s = (pf_mastered_concepts r, pf_weak_concepts r)"
proof (cases "student_profile s")
  case Nil
  from profile_row_or_create_Nil [OF Nil] concepts_Nil [OF Nil] show ?thesis by auto
next
  case (Cons r rs)
  from profile_row_or_create_Cons [OF Cons] concepts_Cons [OF Cons] Cons show ?thesis by auto
qed

lemma add_mastered_concept_concepts:
  "\<exists>s'. add_mastered_concept now x s = Inr s' \<and>
     concepts s' = (if x \<in> set (fst (concepts s)) then concepts s
                    else (fst (concepts s) @ [x],
                          if x \<in> set (snd (concepts s)) then remove1 x (snd (concepts s))
                          else snd (concepts s)))"
proof -
  obtain r rs s1 where h: "profile_row_or_create s = Inr (r, s1)" "student_profile s1 = r # rs"
    "concepts s = (pf_mastered_concepts r, pf_weak_concepts r)"
    using profile_row_or_create_total by blast
  show ?thesis
  proof (cases "x \<in> set (pf_mastered_concepts r)")
    case True
    then show ?thesis using h concepts_Cons [OF h(2)]
      by (simp add: add_mastered_concept_def)
  next
    case False
    then show ?thesis using h
      by (auto simp add: add_mastered_concept_def concepts_Cons Let_def)
  qed
qed

lemma add_weak_concept_concepts:
  "\<exists>s'. add_weak_concept now x s = Inr s' \<and>
     concepts s' = (if x \<notin> set (snd (concepts s)) \<and> x \<notin> set (fst (concepts s))
                    then (fst (concepts s), snd (concepts s) @ [x])
                    else concepts s)"
proof -
  obtain r rs s1 where h: "profile_row_or_create s = Inr (r, s1)" "student_profile s1 = r # rs"
    "concepts s = (pf_mastered_concepts r, pf_weak_concepts r)"
    using profile_row_or_create_total by blast
  show ?thesis
  proof (cases "x \<notin> set (pf_weak_concepts r) \<and> x \<notin> set (pf_mastered_concepts r)")
    case True
    then show ?thesis using h
      by (auto simp add: add_weak_concept_def concepts_Cons Let_def)
  next
    case False
    then show ?thesis using h concepts_Cons [OF h(2)]
      by (auto simp add: add_weak_concept_def)
  qed
qed

lemma add_mastered_concept_ok:
  assumes "concepts_ok s"
  shows "\<exists>s'. add_mastered_concept now x s = Inr s' \<and> concepts_ok s'
           \<and> x \<in> set (fst (concepts s')) \<and> x \<notin> set (snd (concepts s'))"
proof -
  obtain s' where h: "add_mastered_concept now x s = Inr s'"
    "concepts s' = (if x \<in> set (fst (concepts s)) then concepts s
                    else (fst (concepts s) @ [x],
                          if x \<in> set (snd (concepts s)) then remove1 x (snd (concepts s))
                          else snd (concepts s)))"
    using add_mastered_concept_concepts by blast
  have "concepts_ok s' \<and> x \<in> set (fst (concepts s')) \<and> x \<notin> set (snd (concepts s'))"
    using assms h(2) by (auto simp add: concepts_ok_def dest: notin_set_remove1)
  with h(1) show ?thesis by blast
qed

lemma add_weak_concept_ok:
  assumes "concepts_ok s"
  shows "\<exists>s'. add_weak_concept now x s = Inr s' \<and> concepts_ok s'
           \<and> fst (concepts s') = fst (concepts s)"
proof -
  obtain s' where h: "add_weak_concept now x s = Inr s'"
    "concepts s' = (if x \<notin> set (snd (concepts s)) \<and> x \<notin> set (fst (concepts s))
                    then (fst (concepts s), snd (concepts s) @ [x])
                    else concepts s)"
    using add_weak_concept_concepts by blast
  have "concepts_ok s' \<and> fst (concepts s') = fst (concepts s)"
    using assms h(2) by (auto simp add: concepts_ok_def)
  with h(1) show ?thesis by blast
qed

lemma add_weak_concept_mastered:
  assumes "x \<in> set (fst (concepts s))"
  shows "add_weak_concept now x s = Inr s"
proof (cases "student_profile s")
  case Nil
  with assms show ?thesis by (simp add: concepts_Nil)
next
  case (Cons r rs)
  with assms show ?thesis
    by (simp add: concepts_Cons profile_row_or_create_Cons add_weak_concept_def)
qed

lemma apply_concept_ops_ok:
  "concepts_ok s \<Longrightarrow> \<exists>s'. apply_concept_ops ops s = Inr s' \<and> concepts_ok s'"
proof (induction ops arbitrary: s)
  case Nil
  then show ?case by simp
next
  case (Cons a ops)
  obtain now op where a: "a = (now, op)" by (cases a)
  show ?case
  proof (cases op)
    case (AddMastered c)
    from add_mastered_concept_ok [OF Cons.prems, of now c]
    obtain s1 where "add_mastered_concept now c s = Inr s1" "concepts_ok s1" by blast
    with Cons.IH [of s1] a AddMastered show ?thesis by simp
  next
    case (AddWeak c)
    from add_weak_concept_ok [OF Cons.prems, of now c]
    obtain s1 where "add_weak_concept now c s = Inr s1" "concepts_ok s1" by blast
    with Cons.IH [of s1] a AddWeak show ?thesis by simp
  qed
qed

lemma concepts_ok_empty_store: "concepts_ok empty_store"
  by (simp add: concepts_ok_def concepts_Nil empty_store_def)

text \<open>
  C5. Mastery is sticky and the two concept lists stay disjoint. From any profile whose
  weak list has no repetition and shares nothing with the mastered list (the new store
  is one): adding a concept as mastered and then as weak leaves it mastered and not weak;
  every run of the two concept methods succeeds and ends in such a profile, so no
  concept is in both lists; adding a mastered concept takes it out of the weak list; and
  adding a weak concept that is already mastered changes nothing.
\<close>

theorem profile_concepts_exclusive:
  assumes "concepts_ok s"
  shows "(\<exists>s1 s2. add_mastered_concept t1 x s = Inr s1 \<and> add_weak_concept t2 x s1 = Inr s2
            \<and> x \<in> set (fst (concepts s2)) \<and> x \<notin> set (snd (concepts s2)))
       \<and> (\<exists>s'. apply_concept_ops ops s = Inr s' \<and> concepts_ok s'
            \<and> set (fst (concepts s')) \<inter> set (snd (concepts s')) = {})
       \<and> (\<exists>s1. add_mastered_concept t1 x s = Inr s1
            \<and> x \<in> set (fst (concepts s1)) \<and> x \<notin> set (snd (concepts s1)))
       \<and> (x \<in> set (fst (concepts s)) \<longrightarrow> add_weak_concept t2 x s = Inr s)"
proof -
  obtain s1 where s1: "add_mastered_concept t1 x s = Inr s1" "concepts_ok s1"
    "x \<in> set (fst (concepts s1))" "x \<notin> set (snd (concepts s1))"
    using add_mastered_concept_ok [OF assms] by blast
  have s2: "add_weak_concept t2 x s1 = Inr s1"
    using s1(3) by (rule add_weak_concept_mastered)
  obtain s' where s': "apply_concept_ops ops s = Inr s'" "concepts_ok s'"
    using apply_concept_ops_ok [OF assms] by blast
  have "set (fst (concepts s')) \<inter> set (snd (concepts s')) = {}"
    using s'(2) by (simp add: concepts_ok_def)
  with s1 s2 s' show ?thesis
    by (blast intro: add_weak_concept_mastered)
qed

theorem profile_concepts_exclusive_witness:
  "concepts_ok empty_store
   \<and> (\<exists>s1 s2. add_mastered_concept 5 ''x'' empty_store = Inr s1
          \<and> add_weak_concept 6 ''x'' s1 = Inr s2
          \<and> ''x'' \<in> set (fst (concepts s2)) \<and> ''x'' \<notin> set (snd (concepts s2)))
   \<and> (\<exists>s'. apply_concept_ops [(1, AddWeak ''x''), (2, AddMastered ''x''), (3, AddWeak ''x'')]
              empty_store = Inr s'
          \<and> concepts s' = ([''x''], []))"
proof -
  have "apply_concept_ops [(1, AddWeak ''x''), (2, AddMastered ''x''), (3, AddWeak ''x'')]
          empty_store
        = Inr \<lparr>learning_progress = [], learning_progress_seq = 0,
               quiz_results = [], quiz_results_seq = 0,
               student_profile = [\<lparr>pf_id = 1, pf_mastered_concepts = [''x''],
                 pf_weak_concepts = [], pf_learning_style = ''reading'',
                 pf_last_session = Some 2\<rparr>], student_profile_seq = 1,
               lesson_cache = [], lesson_cache_seq = 0\<rparr>"
    by (simp add: add_weak_concept_def add_mastered_concept_def profile_row_or_create_def
        select_profile_def create_default_profile_def default_StudentProfile_def
        empty_store_def)
  then show ?thesis
    using profile_concepts_exclusive [OF concepts_ok_empty_store, of 5 "''x''" 6]
    by (simp add: concepts_ok_empty_store concepts_Cons)
qed

section \<open>Properties of the lesson cache\<close>

lemma find_unique_key:
  assumes "distinct (map key xs)" "r \<in> set xs" "P r" "\<And>r'. P r' \<Longrightarrow> key r' = key r"
  shows "find P xs = Some r"
  using assms
proof (induction xs)
  case Nil
  then show ?case by simp
next
  case (Cons a xs)
  show ?case
  proof (cases "a = r")
    case True
    with Cons.prems(3) show ?thesis by simp
  next
    case False
    with Cons.prems(2) have r: "r \<in> set xs" by simp
    have "\<not> P a"
    proof
      assume "P a"
      then have "key a = key r" by (rule Cons.prems(4))
      moreover have "key r \<in> key ` set xs" using r by simp
      ultimately show False using Cons.prems(1) by simp
    qed
    moreover have "find P xs = Some r"
    proof (rule Cons.IH)
      show "distinct (map key xs)" using Cons.prems(1) by simp
      show "r \<in> set xs" by (rule r)
      show "P r" by (rule Cons.prems(3))
      show "\<And>r'. P r' \<Longrightarrow> key r' = key r" by (rule Cons.prems(4))
    qed
    ultimately show ?thesis by simp
  qed
qed

lemma get_cached_lesson_Some:
  assumes "get_cached_lesson now package_name s = Some c"
  shows "\<exists>r \<in> set (lesson_cache s). lc_package_name r = package_name
           \<and> now < lc_expires_at r \<and> lc_content r = c"
proof -
  from assms obtain r where
    "find (\<lambda>r. lc_package_name r = package_name \<and> now < lc_expires_at r) (lesson_cache s) = Some r"
    "lc_content r = c"
    by (auto simp add: get_cached_lesson_def split: option.splits)
  then show ?thesis
    by (auto simp add: find_Some_iff)
qed

lemma get_cached_lesson_None:
  assumes "\<forall>r \<in> set (lesson_cache s). lc_package_name r = package_name \<longrightarrow> lc_expires_at r \<le> now"
  shows "get_cached_lesson now package_name s = None"
proof -
  have "find (\<lambda>r. lc_package_name r = package_name \<and> now < lc_expires_at r) (lesson_cache s) = None"
    using assms by (auto simp add: find_None_iff)
  then show ?thesis by (simp add: get_cached_lesson_def)
qed

lemma get_cached_lesson_live:
  assumes "unique_cache s" "r \<in> set (lesson_cache s)" "now < lc_expires_at r"
  shows "get_cached_lesson now (lc_package_name r) s = Some (lc_content r)"
proof -
  have "find (\<lambda>r'. lc_package_name r' = lc_package_name r \<and> now < lc_expires_at r') (lesson_cache s)
        = Some r"
    using assms by (intro find_unique_key [where key = lc_package_name]) (simp_all add: unique_cache_def)
  then show ?thesis by (simp add: get_cached_lesson_def)
qed

lemma expiry_time_zero:
  assumes "0 \<le> now" "now < MAX_TIMESTAMP"
  shows "expiry_time now 0 = Inr now"
  using assms by (simp add: expiry_time_def)

lemma cache_lesson_rows:
  assumes "expiry_time now ttl = Inr e"
  shows "\<exists>s'. cache_lesson now package_name content ttl s = Inr s'
     \<and> (\<forall>r \<in> set (lesson_cache s'). lc_package_name r = package_name \<longrightarrow> lc_expires_at r = e \<and> lc_content r = content)
     \<and> (\<exists>r \<in> set (lesson_cache s'). lc_package_name r = package_name)
     \<and> map lc_package_name (lesson_cache s') =
        (if package_name \<in> lc_package_name ` set (lesson_cache s) then map lc_package_name (lesson_cache s)
         else map lc_package_name (lesson_cache s) @ [package_name])"
proof (cases "\<exists>r \<in> set (lesson_cache s). lc_package_name r = package_name")
  case True
  then have "package_name \<in> lc_package_name ` set (lesson_cache s)" by auto
  moreover have "map (lc_package_name \<circ> (\<lambda>r. if lc_package_name r = package_name
            then r\<lparr>lc_content := content, lc_created_at := now, lc_expires_at := e\<rparr> else r))
          (lesson_cache s) = map lc_package_name (lesson_cache s)"
    by (rule map_cong) auto
  ultimately show ?thesis using assms True
    by (auto simp add: cache_lesson_def Let_def)
next
  case False
  then have "package_name \<notin> lc_package_name ` set (lesson_cache s)" by auto
  then show ?thesis using assms False
    by (auto simp add: cache_lesson_def Let_def)
qed

lemma cache_lesson_unique:
  assumes "unique_cache s" "cache_lesson now package_name content ttl s = Inr s'"
  shows "unique_cache s'"
proof -
  from assms(2) obtain e where e: "expiry_time now ttl = Inr e"
    by (auto simp add: cache_lesson_def split: sum.splits)
  from cache_lesson_rows [OF e, of package_name content s] assms
  show ?thesis by (auto simp add: unique_cache_def split: if_splits)
qed

text \<open>
  C6. A cache read returns content only from a row of that package whose expiry is
  strictly after the current time, and that content exactly when the package has such a
  row; when every row of the package has expired the read is a plain miss, the same
  value as for a package never cached. Writing a lesson with a time-to-live of 0 hours
  succeeds, leaves a row for the package, and a read at that instant or later misses.
\<close>

theorem cache_read_after_expiry_absent:
  "(\<forall>c. get_cached_lesson now package_name s = Some c \<longrightarrow>
       (\<exists>r \<in> set (lesson_cache s). lc_package_name r = package_name
           \<and> now < lc_expires_at r \<and> lc_content r = c))
   \<and> ((\<forall>r \<in> set (lesson_cache s). lc_package_name r = package_name \<longrightarrow> lc_expires_at r \<le> now)
        \<longrightarrow> get_cached_lesson now package_name s = None)
   \<and> (unique_cache s \<longrightarrow>
        (\<forall>r \<in> set (lesson_cache s). lc_package_name r = package_name \<and> now < lc_expires_at r
           \<longrightarrow> get_cached_lesson now package_name s = Some (lc_content r)))
   \<and> (0 \<le> now \<and> now < MAX_TIMESTAMP \<and> now \<le> later \<longrightarrow>
        (\<exists>s'. cache_lesson now package_name content 0 s = Inr s'
           \<and> (\<exists>r \<in> set (lesson_cache s'). lc_package_name r = package_name)
           \<and> get_cached_lesson later package_name s' = None))"
proof (intro conjI allI impI ballI)
  fix c assume "get_cached_lesson now package_name s = Some c"
  then show "\<exists>r \<in> set (lesson_cache s). lc_package_name r = package_name
           \<and> now < lc_expires_at r \<and> lc_content r = c"
    by (rule get_cached_lesson_Some)
next
  assume "\<forall>r \<in> set (lesson_cache s). lc_package_name r = package_name \<longrightarrow> lc_expires_at r \<le> now"
  then show "get_cached_lesson now package_name s = None"
    by (rule get_cached_lesson_None)
next
  fix r assume "unique_cache s" "r \<in> set (lesson_cache s)"
    "lc_package_name r = package_name \<and> now < lc_expires_at r"
  then show "get_cached_lesson now package_name s = Some (lc_content r)"
    using get_cached_lesson_live [of s r now] by auto
next
  assume h: "0 \<le> now \<and> now < MAX_TIMESTAMP \<and> now \<le> later"
  then have "expiry_time now 0 = Inr now" by (simp add: expiry_time_zero)
  from cache_lesson_rows [OF this, of package_name content s]
  obtain s' where s': "cache_lesson now package_name content 0 s = Inr s'"
    "\<forall>r \<in> set (lesson_cache s'). lc_package_name r = package_name \<longrightarrow> lc_expires_at r = now"
    "\<exists>r \<in> set (lesson_cache s'). lc_package_name r = package_name"
    by blast
  have "get_cached_lesson later package_name s' = None"
    using s'(2) h by (intro get_cached_lesson_None) auto
  with s' show "\<exists>s'. cache_lesson now package_name content 0 s = Inr s'
           \<and> (\<exists>r \<in> set (lesson_cache s'). lc_package_name r = package_name)
           \<and> get_cached_lesson later package_name s' = None"
    by blast
qed

theorem cache_read_after_expiry_absent_witness:
  "get_cached_lesson 50 ''nginx'' nginx_store = Some (PDict [(''summary'', PStr ''web server'')])
   \<and> get_cached_lesson 100 ''nginx'' nginx_store = None
   \<and> (\<exists>s'. cache_lesson 50 ''test'' (PDict [(''summary'', PStr ''test'')]) 0 empty_store = Inr s'
         \<and> (\<exists>r \<in> set (lesson_cache s'). lc_package_name r = ''test'')
         \<and> get_cached_lesson 50 ''test'' s' = None)"
proof -
  let ?r = "\<lparr>lc_id = 1, lc_package_name = ''nginx'',
        lc_content = PDict [(''summary'', PStr ''web server'')],
        lc_created_at = 10, lc_expires_at = 100\<rparr>"
  have u: "unique_cache nginx_store"
    by (simp add: unique_cache_def nginx_store_def empty_store_def)
  have r: "?r \<in> set (lesson_cache nginx_store)"
    by (simp add: nginx_store_def empty_store_def)
  have a: "get_cached_lesson 50 ''nginx'' nginx_store = Some (lc_content ?r)"
    using cache_read_after_expiry_absent [of 50 "''nginx''" nginx_store, THEN conjunct2,
        THEN conjunct2, THEN conjunct1, rule_format, OF u r]
    by simp
  have "\<forall>r \<in> set (lesson_cache nginx_store). lc_package_name r = ''nginx'' \<longrightarrow> lc_expires_at r \<le> 100"
    by (simp add: nginx_store_def empty_store_def)
  then have b: "get_cached_lesson 100 ''nginx'' nginx_store = None"
    by (rule cache_read_after_expiry_absent [of 100 "''nginx''" nginx_store, THEN conjunct2,
        THEN conjunct1, THEN mp])
  have "(0::int) \<le> 50 \<and> 50 < MAX_TIMESTAMP \<and> (50::int) \<le> 50"
    by (simp add: MAX_TIMESTAMP_def)
  then have c: "\<exists>s'. cache_lesson 50 ''test'' (PDict [(''summary'', PStr ''test'')]) 0 empty_store = Inr s'
         \<and> (\<exists>r \<in> set (lesson_cache s'). lc_package_name r = ''test'')
         \<and> get_cached_lesson 50 ''test'' s' = None"
    by (rule cache_read_after_expiry_absent [where now = 50 and package_name = "''test''"
        and s = empty_store and later = 50, THEN conjunct2,
        THEN conjunct2, THEN conjunct2, THEN mp])
  from a b c show ?thesis by simp
qed

lemma clear_expired_cache_rows:
  "lesson_cache (snd (clear_expired_cache now s)) = filter (\<lambda>r. now < lc_expires_at r) (lesson_cache s)"
proof -
  have "(\<lambda>r. \<not> lc_expires_at r \<le> now) = (\<lambda>r. now < lc_expires_at r)" by auto
  then show ?thesis by (simp add: clear_expired_cache_def not_le)
qed

lemma clear_expired_cache_unique:
  assumes "unique_cache s"
  shows "unique_cache (snd (clear_expired_cache now s))"
  using assms by (simp add: unique_cache_def clear_expired_cache_rows distinct_map_filter)

lemma unique_cache_same_package:
  assumes "unique_cache s" "r \<in> set (lesson_cache s)" "r' \<in> set (lesson_cache s)"
    "lc_package_name r' = lc_package_name r"
  shows "r' = r"
  using assms by (auto simp add: unique_cache_def distinct_map inj_on_def)

text \<open>
  C7. The sweep returns the number of rows whose expiry is at or before the current time
  and deletes exactly those rows: the rows that expire later are all kept, in order, and
  the two counts add up to the size of the cache. Afterwards a read of a swept package
  misses at any time, and a kept package reads back its content at any time before its
  expiry. The other tables are not touched.
\<close>

theorem sweep_removes_exactly_expired:
  assumes "unique_cache s"
  shows "fst (clear_expired_cache now s)
           = length (filter (\<lambda>r. lc_expires_at r \<le> now) (lesson_cache s))
       \<and> lesson_cache (snd (clear_expired_cache now s))
           = filter (\<lambda>r. now < lc_expires_at r) (lesson_cache s)
       \<and> fst (clear_expired_cache now s) + length (lesson_cache (snd (clear_expired_cache now s)))
           = length (lesson_cache s)
       \<and> (\<forall>r \<in> set (lesson_cache s). lc_expires_at r \<le> now \<longrightarrow>
             (\<forall>t. get_cached_lesson t (lc_package_name r) (snd (clear_expired_cache now s)) = None))
       \<and> (\<forall>r \<in> set (lesson_cache s). now < lc_expires_at r \<longrightarrow>
             (\<forall>t. t < lc_expires_at r \<longrightarrow>
                get_cached_lesson t (lc_package_name r) (snd (clear_expired_cache now s))
                  = Some (lc_content r)))
       \<and> unique_cache (snd (clear_expired_cache now s))
       \<and> learning_progress (snd (clear_expired_cache now s)) = learning_progress s
       \<and> quiz_results (snd (clear_expired_cache now s)) = quiz_results s
       \<and> student_profile (snd (clear_expired_cache now s)) = student_profile s"
proof -
  let ?s' = "snd (clear_expired_cache now s)"
  have rows: "lesson_cache ?s' = filter (\<lambda>r. now < lc_expires_at r) (lesson_cache s)"
    by (rule clear_expired_cache_rows)
  have u': "unique_cache ?s'" using assms by (rule clear_expired_cache_unique)
  have count: "fst (clear_expired_cache now s)
           = length (filter (\<lambda>r. lc_expires_at r \<le> now) (lesson_cache s))"
    by (simp add: clear_expired_cache_def)
  have "length (filter (\<lambda>r. lc_expires_at r \<le> now) (lesson_cache s))
        + length (filter (\<lambda>r. \<not> lc_expires_at r \<le> now) (lesson_cache s))
        = length (lesson_cache s)"
    by (rule sum_length_filter_compl)
  then have total: "fst (clear_expired_cache now s) + length (lesson_cache ?s') = length (lesson_cache s)"
    by (simp add: clear_expired_cache_def)
  have gone: "get_cached_lesson t (lc_package_name r) ?s' = None"
    if "r \<in> set (lesson_cache s)" "lc_expires_at r \<le> now" for r t
  proof (rule get_cached_lesson_None, intro ballI impI)
    fix r' assume r': "r' \<in> set (lesson_cache ?s')" "lc_package_name r' = lc_package_name r"
    then have "r' \<in> set (lesson_cache s)" "now < lc_expires_at r'" by (simp_all add: rows)
    moreover from this r' that assms have "r' = r" by (simp add: unique_cache_same_package)
    ultimately show "lc_expires_at r' \<le> t" using that by simp
  qed
  have kept: "get_cached_lesson t (lc_package_name r) ?s' = Some (lc_content r)"
    if "r \<in> set (lesson_cache s)" "now < lc_expires_at r" "t < lc_expires_at r" for r t
  proof (rule get_cached_lesson_live [OF u'])
    show "r \<in> set (lesson_cache ?s')" using that by (simp add: rows)
    show "t < lc_expires_at r" by (rule that(3))
  qed
  have frame: "learning_progress ?s' = learning_progress s" "quiz_results ?s' = quiz_results s"
    "student_profile ?s' = student_profile s"
    by (simp_all add: clear_expired_cache_def)
  from count rows total gone kept u' frame show ?thesis by blast
qed

theorem sweep_removes_exactly_expired_witness:
  "unique_cache nginx_store
   \<and> fst (clear_expired_cache 50 nginx_store) = 1
   \<and> map lc_package_name (lesson_cache (snd (clear_expired_cache 50 nginx_store))) = [''nginx'']
   \<and> get_cached_lesson 50 ''git'' (snd (clear_expired_cache 50 nginx_store)) = None
   \<and> get_cached_lesson 50 ''nginx'' (snd (clear_expired_cache 50 nginx_store))
       = Some (PDict [(''summary'', PStr ''web server'')])"
proof -
  have u: "unique_cache nginx_store"
    by (simp add: unique_cache_def nginx_store_def empty_store_def)
  note t = sweep_removes_exactly_expired [OF u, of 50]
  have "fst (clear_expired_cache 50 nginx_store) = 1"
    using t [THEN conjunct1] by (simp add: nginx_store_def empty_store_def)
  moreover have "map lc_package_name (lesson_cache (snd (clear_expired_cache 50 nginx_store))) = [''nginx'']"
    using t [THEN conjunct2, THEN conjunct1] by (simp add: nginx_store_def empty_store_def)
  moreover have "get_cached_lesson 50 ''git'' (snd (clear_expired_cache 50 nginx_store)) = None"
    using t [THEN conjunct2, THEN conjunct2, THEN conjunct2, THEN conjunct1]
    by (simp add: nginx_store_def empty_store_def)
  moreover have "get_cached_lesson 50 ''nginx'' (snd (clear_expired_cache 50 nginx_store))
       = Some (PDict [(''summary'', PStr ''web server'')])"
    using t [THEN conjunct2, THEN conjunct2, THEN conjunct2, THEN conjunct2, THEN conjunct1]
    by (simp add: nginx_store_def empty_store_def)
  ultimately show ?thesis using u by simp
qed

section \<open>Properties of the learning progress\<close>

lemma progress_key_updated_row [simp]: "progress_key (updated_row now p r) = progress_key r"
  by (simp add: progress_key_def updated_row_def)

lemma select_progress_unique:
  assumes "unique_progress s" "r \<in> set (learning_progress s)"
  shows "select_progress (pr_package_name r) (pr_topic r) s = Some r"
proof -
  have "find (\<lambda>r'. pr_package_name r' = pr_package_name r \<and> pr_topic r' = pr_topic r)
          (learning_progress s) = Some r"
    using assms
    by (intro find_unique_key [where key = progress_key])
       (simp_all add: unique_progress_def progress_key_def)
  then show ?thesis by (simp add: select_progress_def)
qed

lemma upsert_progress_overflow:
  assumes "\<not> in_int64 (lp_total_time_seconds p)"
  shows "upsert_progress now p s = Inl (OverflowError INT_TOO_LARGE)"
  using assms by (simp add: upsert_progress_def exec_upsert_progress_def)

lemma exec_upsert_progress_insert:
  assumes "in_int64 (lp_total_time_seconds p)"
    "\<forall>r \<in> set (learning_progress s). progress_key r \<noteq> (lp_package_name p, lp_topic p)"
  shows "exec_upsert_progress now p s =
     Inr (Suc (learning_progress_seq s),
          s\<lparr>learning_progress := learning_progress s @
               [inserted_row (Suc (learning_progress_seq s)) now p],
             learning_progress_seq := Suc (learning_progress_seq s)\<rparr>)"
  using assms by (auto simp add: exec_upsert_progress_def Let_def progress_key_def)

lemma exec_upsert_progress_update:
  assumes "in_int64 (lp_total_time_seconds p)"
    "r \<in> set (learning_progress s)" "progress_key r = (lp_package_name p, lp_topic p)"
  shows "exec_upsert_progress now p s =
     Inr (0, s\<lparr>learning_progress :=
                 map (\<lambda>r. if progress_key r = (lp_package_name p, lp_topic p)
                           then updated_row now p r else r) (learning_progress s),
               learning_progress_seq := Suc (learning_progress_seq s)\<rparr>)"
proof -
  have "\<exists>r \<in> set (learning_progress s).
          pr_package_name r = lp_package_name p \<and> pr_topic r = lp_topic p"
    using assms(2,3) by (auto simp add: progress_key_def)
  then show ?thesis
    using assms(1)
    by (simp add: exec_upsert_progress_def Let_def progress_key_def updated_row_def)
qed

lemma upsert_progress_insert:
  assumes "in_int64 (lp_total_time_seconds p)"
    "\<forall>r \<in> set (learning_progress s). progress_key r \<noteq> (lp_package_name p, lp_topic p)"
  shows "upsert_progress now p s =
     Inr (Suc (learning_progress_seq s),
          s\<lparr>learning_progress := learning_progress s @
               [inserted_row (Suc (learning_progress_seq s)) now p],
             learning_progress_seq := Suc (learning_progress_seq s)\<rparr>)"
  by (simp add: upsert_progress_def exec_upsert_progress_insert [OF assms])

lemma upsert_progress_update:
  assumes "in_int64 (lp_total_time_seconds p)"
    "unique_progress s" "r \<in> set (learning_progress s)"
    "progress_key r = (lp_package_name p, lp_topic p)"
  shows "upsert_progress now p s =
     Inr (pr_id r, s\<lparr>learning_progress :=
                 map (\<lambda>r. if progress_key r = (lp_package_name p, lp_topic p)
                           then updated_row now p r else r) (learning_progress s),
               learning_progress_seq := Suc (learning_progress_seq s)\<rparr>)"
proof -
  let ?rows = "map (\<lambda>r. if progress_key r = (lp_package_name p, lp_topic p)
                       then updated_row now p r else r) (learning_progress s)"
  let ?s' = "s\<lparr>learning_progress := ?rows,
           learning_progress_seq := Suc (learning_progress_seq s)\<rparr>"
  have keys: "map progress_key ?rows = map progress_key (learning_progress s)"
    by (simp add: comp_def if_distrib cong: if_cong)
  have "learning_progress ?s' = ?rows" by simp
  then have "map progress_key (learning_progress ?s') = map progress_key (learning_progress s)"
    using keys by (simp only:)
  moreover have "distinct (map progress_key (learning_progress s))"
    using assms(2) by (simp only: unique_progress_def)
  ultimately have u: "unique_progress ?s'"
    by (simp only: unique_progress_def)
  have mem: "updated_row now p r \<in> set (learning_progress ?s')"
    using assms(3,4) by (auto simp add: image_iff intro!: bexI [of _ r])
  have names: "pr_package_name (updated_row now p r) = lp_package_name p"
    "pr_topic (updated_row now p r) = lp_topic p"
    using assms(4) by (simp_all add: updated_row_def progress_key_def)
  have "select_progress (lp_package_name p) (lp_topic p) ?s' = Some (updated_row now p r)"
    using select_progress_unique [OF u mem] by (simp add: names)
  then show ?thesis
    by (simp add: upsert_progress_def exec_upsert_progress_update [OF assms(1,3,4)]
        updated_row_def)
qed

lemma progress_key_inserted_row [simp]:
  "progress_key (inserted_row i now p) = (lp_package_name p, lp_topic p)"
  by (simp add: progress_key_def inserted_row_def)

lemma upsert_progress_result:
  assumes "in_int64 (lp_total_time_seconds p)" "unique_progress s"
  shows "\<exists>row s'. upsert_progress now p s = Inr (pr_id row, s')
      \<and> unique_progress s'
      \<and> row \<in> set (learning_progress s')
      \<and> progress_key row = (lp_package_name p, lp_topic p)
      \<and> pr_completed row = lp_completed p \<and> pr_score row = lp_score p
      \<and> pr_last_accessed row = Some now
      \<and> pr_total_time_seconds row = lp_total_time_seconds p
      \<and> (\<forall>r \<in> set (learning_progress s).
            progress_key r = (lp_package_name p, lp_topic p) \<longrightarrow> pr_id r = pr_id row)
      \<and> quiz_results s' = quiz_results s"
proof (cases "\<exists>r \<in> set (learning_progress s). progress_key r = (lp_package_name p, lp_topic p)")
  case False
  then have no: "\<forall>r \<in> set (learning_progress s). progress_key r \<noteq> (lp_package_name p, lp_topic p)"
    by simp
  let ?row = "inserted_row (Suc (learning_progress_seq s)) now p"
  let ?s' = "s\<lparr>learning_progress := learning_progress s @ [?row],
         learning_progress_seq := Suc (learning_progress_seq s)\<rparr>"
  have "unique_progress ?s'"
    using assms(2) no by (auto simp add: unique_progress_def)
  moreover have "pr_id ?row = Suc (learning_progress_seq s)" "pr_completed ?row = lp_completed p"
    "pr_score ?row = lp_score p" "pr_last_accessed ?row = Some now"
    "pr_total_time_seconds ?row = lp_total_time_seconds p"
    by (simp_all add: inserted_row_def)
  moreover have "?row \<in> set (learning_progress ?s')" by simp
  moreover have "quiz_results ?s' = quiz_results s" by simp
  ultimately show ?thesis
    using upsert_progress_insert [OF assms(1) no, of now] no
      progress_key_inserted_row [of _ now p]
    by (intro exI [of _ ?row] exI [of _ ?s']) simp
next
  case True
  then obtain r where r: "r \<in> set (learning_progress s)"
    "progress_key r = (lp_package_name p, lp_topic p)" by blast
  let ?row = "updated_row now p r"
  let ?rows = "map (\<lambda>r. if progress_key r = (lp_package_name p, lp_topic p)
                       then updated_row now p r else r) (learning_progress s)"
  let ?s' = "s\<lparr>learning_progress := ?rows,
           learning_progress_seq := Suc (learning_progress_seq s)\<rparr>"
  have keys: "map progress_key ?rows = map progress_key (learning_progress s)"
    by (simp add: comp_def if_distrib cong: if_cong)
  have "learning_progress ?s' = ?rows" by simp
  then have "map progress_key (learning_progress ?s') = map progress_key (learning_progress s)"
    using keys by (simp only:)
  moreover have d: "distinct (map progress_key (learning_progress s))"
    using assms(2) by (simp only: unique_progress_def)
  ultimately have u: "unique_progress ?s'"
    by (simp only: unique_progress_def)
  have mem: "?row \<in> set (learning_progress ?s')"
    using r by (auto simp add: image_iff intro!: bexI [of _ r])
  have same: "pr_id r' = pr_id ?row"
    if "r' \<in> set (learning_progress s)" "progress_key r' = (lp_package_name p, lp_topic p)" for r'
  proof -
    have "r' = r" using d that r by (auto simp add: distinct_map inj_on_def)
    then show ?thesis by (simp add: updated_row_def)
  qed
  have fields: "pr_id ?row = pr_id r" "pr_completed ?row = lp_completed p"
    "pr_score ?row = lp_score p" "pr_last_accessed ?row = Some now"
    "pr_total_time_seconds ?row = lp_total_time_seconds p"
    "progress_key ?row = (lp_package_name p, lp_topic p)"
    using r(2) by (simp_all add: updated_row_def progress_key_def)
  have q: "quiz_results ?s' = quiz_results s" by simp
  have res: "upsert_progress now p s = Inr (pr_id ?row, ?s')"
    using upsert_progress_update [OF assms r, of now] fields(1) by (simp only:)
  show ?thesis
  proof (intro exI [of _ ?row] exI [of _ ?s'] conjI ballI impI)
    show "upsert_progress now p s = Inr (pr_id ?row, ?s')" by (rule res)
    show "unique_progress ?s'" by (rule u)
    show "?row \<in> set (learning_progress ?s')" by (rule mem)
    show "progress_key ?row = (lp_package_name p, lp_topic p)" by (rule fields)
    show "pr_completed ?row = lp_completed p" by (rule fields)
    show "pr_score ?row = lp_score p" by (rule fields)
    show "pr_last_accessed ?row = Some now" by (rule fields)
    show "pr_total_time_seconds ?row = lp_total_time_seconds p" by (rule fields)
    show "quiz_results ?s' = quiz_results s" by (rule q)
  next
    fix r' assume "r' \<in> set (learning_progress s)"
      "progress_key r' = (lp_package_name p, lp_topic p)"
    then show "pr_id r' = pr_id ?row" by (rule same)
  qed
qed

lemma unique_key_filter:
  assumes "distinct (map f xs)" "x \<in> set xs"
  shows "filter (\<lambda>y. f y = f x) xs = [x]"
  using assms
proof (induction xs)
  case Nil
  then show ?case by simp
next
  case (Cons a xs)
  show ?case
  proof (cases "a = x")
    case True
    have "filter (\<lambda>y. f y = f x) xs = []"
      using Cons.prems(1) True by (force simp add: filter_empty_conv image_iff)
    with True show ?thesis by simp
  next
    case False
    with Cons.prems have "x \<in> set xs" "f a \<noteq> f x" by auto
    with Cons show ?thesis by simp
  qed
qed

lemma get_progress_unique:
  assumes "unique_progress s" "r \<in> set (learning_progress s)" "progress_key r = (p, t)"
  shows "get_progress p t s = Some (to_LearningProgress r)"
proof -
  have "pr_package_name r = p" "pr_topic r = t"
    using assms(3) by (simp_all add: progress_key_def)
  with select_progress_unique [OF assms(1,2)] show ?thesis
    by (simp add: get_progress_def)
qed

lemma upsert_twice_both_stored:
  assumes "unique_progress s" "lp_package_name p2 = lp_package_name p1"
    "lp_topic p2 = lp_topic p1"
    "in_int64 (lp_total_time_seconds p1)" "in_int64 (lp_total_time_seconds p2)"
  shows "\<exists>i row s1 s2. upsert_progress t1 p1 s = Inr (i, s1)
     \<and> upsert_progress t2 p2 s1 = Inr (i, s2)
     \<and> unique_progress s2
     \<and> filter (\<lambda>r. progress_key r = (lp_package_name p1, lp_topic p1)) (learning_progress s2)
         = [row]
     \<and> pr_id row = i \<and> pr_completed row = lp_completed p2 \<and> pr_score row = lp_score p2
     \<and> pr_total_time_seconds row = lp_total_time_seconds p2
     \<and> pr_last_accessed row = Some t2
     \<and> get_progress (lp_package_name p1) (lp_topic p1) s2 = Some (to_LearningProgress row)"
proof -
  from upsert_progress_result [OF assms(4,1), of t1]
  obtain row1 s1 where 1: "upsert_progress t1 p1 s = Inr (pr_id row1, s1)" "unique_progress s1"
    "row1 \<in> set (learning_progress s1)"
    "progress_key row1 = (lp_package_name p1, lp_topic p1)"
    by blast
  from upsert_progress_result [OF assms(5) 1(2), of t2]
  obtain row2 s2 where 2: "upsert_progress t2 p2 s1 = Inr (pr_id row2, s2)" "unique_progress s2"
    "row2 \<in> set (learning_progress s2)"
    "progress_key row2 = (lp_package_name p2, lp_topic p2)"
    "pr_completed row2 = lp_completed p2" "pr_score row2 = lp_score p2"
    "pr_last_accessed row2 = Some t2"
    "pr_total_time_seconds row2 = lp_total_time_seconds p2"
    "\<forall>r \<in> set (learning_progress s1).
        progress_key r = (lp_package_name p2, lp_topic p2) \<longrightarrow> pr_id r = pr_id row2"
    by blast
  have same: "pr_id row1 = pr_id row2"
    using 2(9) 1(3,4) assms(2,3) by simp
  have key2: "progress_key row2 = (lp_package_name p1, lp_topic p1)"
    using 2(4) assms(2,3) by simp
  have "filter (\<lambda>r. progress_key r = progress_key row2) (learning_progress s2) = [row2]"
    using 2(2,3) by (intro unique_key_filter) (simp_all add: unique_progress_def)
  then have one: "filter (\<lambda>r. progress_key r = (lp_package_name p1, lp_topic p1))
      (learning_progress s2) = [row2]"
    by (simp only: key2)
  have get: "get_progress (lp_package_name p1) (lp_topic p1) s2
      = Some (to_LearningProgress row2)"
    using 2(2,3) key2 by (rule get_progress_unique)
  have first: "upsert_progress t1 p1 s = Inr (pr_id row2, s1)" using 1(1) same by simp
  from first 2(1,2) one 2(5,6,8,7) get show ?thesis by blast
qed

lemma upsert_second_overflow:
  assumes "unique_progress s" "lp_package_name p2 = lp_package_name p1"
    "lp_topic p2 = lp_topic p1"
    "in_int64 (lp_total_time_seconds p1)" "\<not> in_int64 (lp_total_time_seconds p2)"
  shows "\<exists>i row s1. upsert_progress t1 p1 s = Inr (i, s1)
     \<and> upsert_progress t2 p2 s1 = Inl (OverflowError INT_TOO_LARGE)
     \<and> get_progress (lp_package_name p1) (lp_topic p1) s1 = Some (to_LearningProgress row)
     \<and> pr_id row = i \<and> pr_completed row = lp_completed p1 \<and> pr_score row = lp_score p1
     \<and> pr_total_time_seconds row = lp_total_time_seconds p1"
proof -
  from upsert_progress_result [OF assms(4,1), of t1]
  obtain row1 s1 where 1: "upsert_progress t1 p1 s = Inr (pr_id row1, s1)" "unique_progress s1"
    "row1 \<in> set (learning_progress s1)"
    "progress_key row1 = (lp_package_name p1, lp_topic p1)"
    "pr_completed row1 = lp_completed p1" "pr_score row1 = lp_score p1"
    "pr_total_time_seconds row1 = lp_total_time_seconds p1"
    by blast
  have get: "get_progress (lp_package_name p1) (lp_topic p1) s1
      = Some (to_LearningProgress row1)"
    using 1(2,3,4) by (rule get_progress_unique)
  have second: "upsert_progress t2 p2 s1 = Inl (OverflowError INT_TOO_LARGE)"
    using assms(5) by (rule upsert_progress_overflow)
  from 1(1) second get 1(5,6,7) show ?thesis by blast
qed

text \<open>
  C3, amended. On a table that satisfies UNIQUE(package\_name, topic), take two upserts
  for the same (package, topic) pair with any field values. When both total times fit
  the signed 64-bit range of SQLite's INTEGER, both calls return the same row identifier,
  the table still satisfies the constraint and holds exactly one row for the pair, that
  row carries the identifier and the completed, score and total-time values of the second
  call (and its time as last access), and it is what a read of the pair returns. A call
  whose total time lies outside that range raises OverflowError and changes nothing: when
  it is the second call, the row of the pair keeps the identifier and the values of the
  first.
\<close>

theorem upsert_twice_one_row:
  assumes "unique_progress s" "lp_package_name p2 = lp_package_name p1"
    "lp_topic p2 = lp_topic p1"
  shows "(in_int64 (lp_total_time_seconds p1) \<and> in_int64 (lp_total_time_seconds p2) \<longrightarrow>
      (\<exists>i row s1 s2. upsert_progress t1 p1 s = Inr (i, s1)
         \<and> upsert_progress t2 p2 s1 = Inr (i, s2)
         \<and> unique_progress s2
         \<and> filter (\<lambda>r. progress_key r = (lp_package_name p1, lp_topic p1))
              (learning_progress s2) = [row]
         \<and> pr_id row = i \<and> pr_completed row = lp_completed p2 \<and> pr_score row = lp_score p2
         \<and> pr_total_time_seconds row = lp_total_time_seconds p2
         \<and> pr_last_accessed row = Some t2
         \<and> get_progress (lp_package_name p1) (lp_topic p1) s2
              = Some (to_LearningProgress row)))
   \<and> (\<not> in_int64 (lp_total_time_seconds p1) \<longrightarrow>
         upsert_progress t1 p1 s = Inl (OverflowError INT_TOO_LARGE))
   \<and> (in_int64 (lp_total_time_seconds p1) \<and> \<not> in_int64 (lp_total_time_seconds p2) \<longrightarrow>
      (\<exists>i row s1. upsert_progress t1 p1 s = Inr (i, s1)
         \<and> upsert_progress t2 p2 s1 = Inl (OverflowError INT_TOO_LARGE)
         \<and> get_progress (lp_package_name p1) (lp_topic p1) s1
              = Some (to_LearningProgress row)
         \<and> pr_id row = i \<and> pr_completed row = lp_completed p1 \<and> pr_score row = lp_score p1
         \<and> pr_total_time_seconds row = lp_total_time_seconds p1))"
proof (intro conjI impI)
  assume "in_int64 (lp_total_time_seconds p1) \<and> in_int64 (lp_total_time_seconds p2)"
  then have "in_int64 (lp_total_time_seconds p1)" "in_int64 (lp_total_time_seconds p2)"
    by simp_all
  with assms show "\<exists>i row s1 s2. upsert_progress t1 p1 s = Inr (i, s1)
         \<and> upsert_progress t2 p2 s1 = Inr (i, s2)
         \<and> unique_progress s2
         \<and> filter (\<lambda>r. progress_key r = (lp_package_name p1, lp_topic p1))
              (learning_progress s2) = [row]
         \<and> pr_id row = i \<and> pr_completed row = lp_completed p2 \<and> pr_score row = lp_score p2
         \<and> pr_total_time_seconds row = lp_total_time_seconds p2
         \<and> pr_last_accessed row = Some t2
         \<and> get_progress (lp_package_name p1) (lp_topic p1) s2
              = Some (to_LearningProgress row)"
    by (rule upsert_twice_both_stored)
next
  assume "\<not> in_int64 (lp_total_time_seconds p1)"
  then show "upsert_progress t1 p1 s = Inl (OverflowError INT_TOO_LARGE)"
    by (rule upsert_progress_overflow)
next
  assume "in_int64 (lp_total_time_seconds p1) \<and> \<not> in_int64 (lp_total_time_seconds p2)"
  then have "in_int64 (lp_total_time_seconds p1)" "\<not> in_int64 (lp_total_time_seconds p2)"
    by simp_all
  with assms show "\<exists>i row s1. upsert_progress t1 p1 s = Inr (i, s1)
         \<and> upsert_progress t2 p2 s1 = Inl (OverflowError INT_TOO_LARGE)
         \<and> get_progress (lp_package_name p1) (lp_topic p1) s1
              = Some (to_LearningProgress row)
         \<and> pr_id row = i \<and> pr_completed row = lp_completed p1 \<and> pr_score row = lp_score p1
         \<and> pr_total_time_seconds row = lp_total_time_seconds p1"
    by (rule upsert_second_overflow)
qed

lemmas progress_defs = upsert_progress_def exec_upsert_progress_def select_progress_def
  get_progress_def inserted_row_def updated_row_def to_LearningProgress_def
  mark_topic_completed_def after_upsert_def in_int64_def INT_TOO_LARGE_def
  empty_store_def Let_def

theorem upsert_twice_one_row_witness:
  "unique_progress empty_store
   \<and> in_int64 (lp_total_time_seconds docker_basics)
   \<and> (\<exists>i row s1 s2.
        upsert_progress 1 docker_basics empty_store = Inr (i, s1)
      \<and> upsert_progress 2 (docker_basics\<lparr>lp_completed := True, lp_score := 0.9\<rparr>) s1
          = Inr (i, s2)
      \<and> filter (\<lambda>r. progress_key r = (''docker'', ''basics'')) (learning_progress s2) = [row]
      \<and> pr_id row = i \<and> pr_completed row \<and> pr_score row = 0.9)
   \<and> \<not> in_int64 (2 ^ 63)
   \<and> upsert_progress 1 (docker_basics\<lparr>lp_total_time_seconds := 2 ^ 63\<rparr>) empty_store
       = Inl (OverflowError INT_TOO_LARGE)
   \<and> (\<exists>i row s1.
        upsert_progress 1 docker_basics empty_store = Inr (i, s1)
      \<and> upsert_progress 2 (docker_basics\<lparr>lp_total_time_seconds := 2 ^ 63\<rparr>) s1
          = Inl (OverflowError INT_TOO_LARGE)
      \<and> get_progress ''docker'' ''basics'' s1 = Some (to_LearningProgress row)
      \<and> pr_total_time_seconds row = 600)"
proof -
  have u: "unique_progress empty_store"
    by (simp add: unique_progress_def empty_store_def)
  have ok: "in_int64 (lp_total_time_seconds docker_basics)"
    by (simp add: in_int64_def docker_basics_def)
  have big: "\<not> in_int64 (2 ^ 63)"
    by (simp add: in_int64_def)
  let ?done = "docker_basics\<lparr>lp_completed := True, lp_score := 0.9\<rparr>"
  let ?huge = "docker_basics\<lparr>lp_total_time_seconds := 2 ^ 63\<rparr>"
  have "in_int64 (lp_total_time_seconds docker_basics) \<and> in_int64 (lp_total_time_seconds ?done)"
    using ok by simp
  from upsert_twice_one_row [of empty_store ?done docker_basics 1 2, OF u, THEN conjunct1,
      THEN mp, OF _ _ this]
  have a: "\<exists>i row s1 s2.
        upsert_progress 1 docker_basics empty_store = Inr (i, s1)
      \<and> upsert_progress 2 ?done s1 = Inr (i, s2)
      \<and> filter (\<lambda>r. progress_key r = (''docker'', ''basics'')) (learning_progress s2) = [row]
      \<and> pr_id row = i \<and> pr_completed row \<and> pr_score row = 0.9"
    by (simp add: docker_basics_def) blast
  have "\<not> in_int64 (lp_total_time_seconds ?huge)"
    using big by simp
  from upsert_twice_one_row [of empty_store ?huge ?huge 1 1, OF u, THEN conjunct2,
      THEN conjunct1, THEN mp, OF _ _ this]
  have b: "upsert_progress 1 ?huge empty_store = Inl (OverflowError INT_TOO_LARGE)"
    by simp
  have "in_int64 (lp_total_time_seconds docker_basics) \<and> \<not> in_int64 (lp_total_time_seconds ?huge)"
    using ok big by simp
  from upsert_twice_one_row [of empty_store ?huge docker_basics 1 2, OF u, THEN conjunct2,
      THEN conjunct2, THEN mp, OF _ _ this]
  have c: "\<exists>i row s1.
        upsert_progress 1 docker_basics empty_store = Inr (i, s1)
      \<and> upsert_progress 2 ?huge s1 = Inl (OverflowError INT_TOO_LARGE)
      \<and> get_progress ''docker'' ''basics'' s1 = Some (to_LearningProgress row)
      \<and> pr_total_time_seconds row = 600"
    by (simp add: docker_basics_def) blast
  from u ok a big b c show ?thesis by blast
qed

text \<open>
  C3 as stated fails for a total time that SQLite cannot hold: after a first upsert of
  (docker, basics) with 600 seconds, a second upsert of the pair with 2^63 seconds raises
  OverflowError; it returns no identifier, and the row keeps the 600 seconds of the first
  call.
\<close>

theorem upsert_twice_overflow_counterexample:
  "upsert_progress 2 (docker_basics\<lparr>lp_total_time_seconds := 2 ^ 63\<rparr>)
       (after_upsert 1 docker_basics empty_store)
     = Inl (OverflowError ''Python int too large to convert to SQLite INTEGER'')
   \<and> map_option lp_total_time_seconds
       (get_progress ''docker'' ''basics'' (after_upsert 1 docker_basics empty_store))
     = Some 600"
  by (simp add: progress_defs docker_basics_def)

text \<open>
  C1. The code at the failing input: a row with 600 seconds of total time, then
  \<open>mark_topic_completed\<close> for the same pair. The record the method builds carries the
  default total time 0, and the upsert writes it over the stored 600.
\<close>

theorem mark_topic_completed_resets_total_time:
  "map_option lp_total_time_seconds
     (get_progress ''docker'' ''basics'' (after_upsert 1 docker_basics empty_store))
     = Some 600
   \<and> (case mark_topic_completed 2 ''docker'' ''basics'' 1
              (after_upsert 1 docker_basics empty_store) of
         Inl e \<Rightarrow> None
       | Inr s \<Rightarrow> map_option lp_total_time_seconds (get_progress ''docker'' ''basics'' s))
     = Some 0"
  by (simp add: progress_defs docker_basics_def)

lemma get_completion_stats_no_rows:
  assumes "\<forall>r \<in> set (learning_progress s). pr_package_name r \<noteq> package_name"
  shows "get_completion_stats package_name s
     = Inr \<lparr>total = 0, completed = 0, avg_score = 0, total_time_seconds = 0\<rparr>"
proof -
  have "filter (\<lambda>r. pr_package_name r = package_name) (learning_progress s) = []"
    using assms by (simp add: filter_empty_conv)
  then show ?thesis
    by (simp add: get_completion_stats_def sql_sum_def sql_avg_def py_or_def)
qed

lemma docker_scenario_rows:
  assumes "\<forall>r \<in> set (learning_progress s). pr_package_name r \<noteq> ''docker''"
  shows "\<exists>s1 i s2. mark_topic_completed t1 ''docker'' ''basics'' 0.9 s = Inr s1
       \<and> upsert_progress t2 docker_advanced s1 = Inr (i, s2)
       \<and> filter (\<lambda>r. pr_package_name r = ''docker'') (learning_progress s2)
         = [\<lparr>pr_id = Suc (learning_progress_seq s), pr_package_name = ''docker'',
             pr_topic = ''basics'', pr_completed = True, pr_score = 0.9,
             pr_last_accessed = Some t1, pr_total_time_seconds = 0\<rparr>,
            \<lparr>pr_id = Suc (Suc (learning_progress_seq s)), pr_package_name = ''docker'',
             pr_topic = ''advanced'', pr_completed = False, pr_score = 0.5,
             pr_last_accessed = Some t2, pr_total_time_seconds = 0\<rparr>]"
proof -
  let ?p1 = "\<lparr>lp_id = None, lp_package_name = ''docker'', lp_topic = ''basics'',
             lp_completed = True, lp_score = 0.9, lp_last_accessed = None,
             lp_total_time_seconds = 0\<rparr>"
  have ok1: "in_int64 (lp_total_time_seconds ?p1)" by (simp add: in_int64_def)
  have ok2: "in_int64 (lp_total_time_seconds docker_advanced)"
    by (simp add: in_int64_def docker_advanced_def)
  have no1: "\<forall>r \<in> set (learning_progress s). progress_key r \<noteq> (lp_package_name ?p1, lp_topic ?p1)"
    using assms by (simp add: progress_key_def)
  let ?s1 = "s\<lparr>learning_progress := learning_progress s
                 @ [inserted_row (Suc (learning_progress_seq s)) t1 ?p1],
               learning_progress_seq := Suc (learning_progress_seq s)\<rparr>"
  have s1: "mark_topic_completed t1 ''docker'' ''basics'' 0.9 s = Inr ?s1"
    by (simp add: mark_topic_completed_def upsert_progress_insert [OF ok1 no1])
  have no2: "\<forall>r \<in> set (learning_progress ?s1).
       progress_key r \<noteq> (lp_package_name docker_advanced, lp_topic docker_advanced)"
    using assms by (auto simp add: progress_key_def docker_advanced_def inserted_row_def)
  have nodocker: "filter (\<lambda>r. pr_package_name r = ''docker'') (learning_progress s) = []"
    using assms by (simp add: filter_empty_conv)
  let ?s2 = "?s1\<lparr>learning_progress := learning_progress ?s1
                 @ [inserted_row (Suc (learning_progress_seq ?s1)) t2 docker_advanced],
               learning_progress_seq := Suc (learning_progress_seq ?s1)\<rparr>"
  have s2: "upsert_progress t2 docker_advanced ?s1 = Inr (Suc (learning_progress_seq ?s1), ?s2)"
    by (rule upsert_progress_insert [OF ok2 no2])
  have rows: "filter (\<lambda>r. pr_package_name r = ''docker'') (learning_progress ?s2)
         = [\<lparr>pr_id = Suc (learning_progress_seq s), pr_package_name = ''docker'',
             pr_topic = ''basics'', pr_completed = True, pr_score = 0.9,
             pr_last_accessed = Some t1, pr_total_time_seconds = 0\<rparr>,
            \<lparr>pr_id = Suc (Suc (learning_progress_seq s)), pr_package_name = ''docker'',
             pr_topic = ''advanced'', pr_completed = False, pr_score = 0.5,
             pr_last_accessed = Some t2, pr_total_time_seconds = 0\<rparr>]"
    by (simp add: nodocker inserted_row_def docker_advanced_def)
  from s1 s2 rows show ?thesis by blast
qed

text \<open>
  C8. For a package without progress rows the statistics are all zero: the SQL
  aggregates are NULL there and nothing is divided. From any store without rows for
  docker, marking (docker, basics) completed with score 0.9 and then recording
  (docker, advanced) with score 0.5, not completed, gives total 2, completed 1, an
  average score within 1e-9 of 0.7 and total time 0. None of the calls raises.
\<close>

theorem completion_stats_scenario:
  "((\<forall>r \<in> set (learning_progress s). pr_package_name r \<noteq> package_name) \<longrightarrow>
      get_completion_stats package_name s
        = Inr \<lparr>total = 0, completed = 0, avg_score = 0, total_time_seconds = 0\<rparr>)
   \<and> ((\<forall>r \<in> set (learning_progress s). pr_package_name r \<noteq> ''docker'') \<longrightarrow>
      (\<exists>s1 i s2 stats.
          mark_topic_completed t1 ''docker'' ''basics'' 0.9 s = Inr s1
        \<and> upsert_progress t2 docker_advanced s1 = Inr (i, s2)
        \<and> get_completion_stats ''docker'' s2 = Inr stats
        \<and> total stats = 2 \<and> completed stats = 1 \<and> \<bar>avg_score stats - 0.7\<bar> \<le> 1 / 10 ^ 9
        \<and> total_time_seconds stats = 0))"
proof (intro conjI impI)
  assume "\<forall>r \<in> set (learning_progress s). pr_package_name r \<noteq> package_name"
  then show "get_completion_stats package_name s
        = Inr \<lparr>total = 0, completed = 0, avg_score = 0, total_time_seconds = 0\<rparr>"
    by (rule get_completion_stats_no_rows)
next
  assume "\<forall>r \<in> set (learning_progress s). pr_package_name r \<noteq> ''docker''"
  from docker_scenario_rows [OF this, of t1 t2]
  obtain s1 i s2 where h: "mark_topic_completed t1 ''docker'' ''basics'' 0.9 s = Inr s1"
    "upsert_progress t2 docker_advanced s1 = Inr (i, s2)"
    "filter (\<lambda>r. pr_package_name r = ''docker'') (learning_progress s2)
         = [\<lparr>pr_id = Suc (learning_progress_seq s), pr_package_name = ''docker'',
             pr_topic = ''basics'', pr_completed = True, pr_score = 0.9,
             pr_last_accessed = Some t1, pr_total_time_seconds = 0\<rparr>,
            \<lparr>pr_id = Suc (Suc (learning_progress_seq s)), pr_package_name = ''docker'',
             pr_topic = ''advanced'', pr_completed = False, pr_score = 0.5,
             pr_last_accessed = Some t2, pr_total_time_seconds = 0\<rparr>]"
    by blast
  have "get_completion_stats ''docker'' s2
      = Inr \<lparr>total = 2, completed = 1, avg_score = 0.7, total_time_seconds = 0\<rparr>"
    by (simp add: get_completion_stats_def h(3) sql_sum_def sql_avg_def py_or_def in_int64_def)
  with h(1,2) show "\<exists>s1 i s2 stats.
          mark_topic_completed t1 ''docker'' ''basics'' 0.9 s = Inr s1
        \<and> upsert_progress t2 docker_advanced s1 = Inr (i, s2)
        \<and> get_completion_stats ''docker'' s2 = Inr stats
        \<and> total stats = 2 \<and> completed stats = 1 \<and> \<bar>avg_score stats - 0.7\<bar> \<le> 1 / 10 ^ 9
        \<and> total_time_seconds stats = 0"
    by (intro exI [of _ s1] exI [of _ i] exI [of _ s2]
        exI [of _ "\<lparr>total = 2, completed = 1, avg_score = 0.7, total_time_seconds = 0\<rparr>"])
       simp
qed

theorem completion_stats_scenario_witness:
  "get_completion_stats ''git'' empty_store
        = Inr \<lparr>total = 0, completed = 0, avg_score = 0, total_time_seconds = 0\<rparr>
   \<and> (\<exists>s1 i s2 stats.
          mark_topic_completed 1 ''docker'' ''basics'' 0.9 empty_store = Inr s1
        \<and> upsert_progress 2 docker_advanced s1 = Inr (i, s2)
        \<and> get_completion_stats ''docker'' s2 = Inr stats
        \<and> total stats = 2 \<and> completed stats = 1 \<and> \<bar>avg_score stats - 0.7\<bar> \<le> 1 / 10 ^ 9
        \<and> total_time_seconds stats = 0)"
proof -
  have e: "\<forall>r \<in> set (learning_progress empty_store). pr_package_name r \<noteq> p" for p
    by (simp add: empty_store_def)
  from completion_stats_scenario [of empty_store "''git''" 1 2, THEN conjunct1, THEN mp, OF e]
    completion_stats_scenario [of empty_store "''git''" 1 2, THEN conjunct2, THEN mp, OF e]
  show ?thesis by (intro conjI)
qed

text \<open>
  C9, amended. For a non-empty package name A, the reset returns the number of A's
  progress rows, deletes exactly those rows and leaves the rows of every other package as
  they were; without a package it deletes every progress row and returns how many there
  were, and the empty string is treated as no package. The quiz results are never
  touched.
\<close>

theorem reset_progress_scoped:
  "(A \<noteq> [] \<longrightarrow>
      fst (reset_progress (Some A) s)
        = length (filter (\<lambda>r. pr_package_name r = A) (learning_progress s))
      \<and> learning_progress (snd (reset_progress (Some A) s))
        = filter (\<lambda>r. pr_package_name r \<noteq> A) (learning_progress s)
      \<and> (\<forall>B. B \<noteq> A \<longrightarrow>
            filter (\<lambda>r. pr_package_name r = B) (learning_progress (snd (reset_progress (Some A) s)))
              = filter (\<lambda>r. pr_package_name r = B) (learning_progress s))
      \<and> quiz_results (snd (reset_progress (Some A) s)) = quiz_results s)
   \<and> fst (reset_progress None s) = length (learning_progress s)
   \<and> learning_progress (snd (reset_progress None s)) = []
   \<and> quiz_results (snd (reset_progress None s)) = quiz_results s
   \<and> reset_progress (Some []) s = reset_progress None s"
proof -
  have "filter (\<lambda>r. pr_package_name r = B) (filter (\<lambda>r. pr_package_name r \<noteq> A) (learning_progress s))
        = filter (\<lambda>r. pr_package_name r = B) (learning_progress s)" if "B \<noteq> A" for A B
    using that by (auto intro: filter_cong)
  then show ?thesis
    by (simp add: reset_progress_def)
qed

theorem reset_progress_scoped_witness:
  "''docker'' \<noteq> []
   \<and> map pr_package_name (learning_progress one_quiz_store) = [''git'', ''docker'']
   \<and> fst (reset_progress (Some ''docker'') one_quiz_store) = 1
   \<and> map pr_package_name (learning_progress (snd (reset_progress (Some ''docker'') one_quiz_store)))
       = [''git'']
   \<and> quiz_results (snd (reset_progress (Some ''docker'') one_quiz_store)) = quiz_results one_quiz_store
   \<and> length (quiz_results one_quiz_store) = 1"
proof -
  have rows: "map pr_package_name (learning_progress one_quiz_store) = [''git'', ''docker'']"
    "length (quiz_results one_quiz_store) = 1"
    by (simp_all add: one_quiz_store_def docker_basics_def add_quiz_result_def progress_defs)
  have ne: "''docker'' \<noteq> []" by simp
  note t = reset_progress_scoped [of "''docker''" one_quiz_store, THEN conjunct1, THEN mp, OF ne]
  have "fst (reset_progress (Some ''docker'') one_quiz_store) = 1"
    using t [THEN conjunct1]
    by (simp add: one_quiz_store_def docker_basics_def add_quiz_result_def progress_defs)
  moreover have "map pr_package_name
      (learning_progress (snd (reset_progress (Some ''docker'') one_quiz_store))) = [''git'']"
    using t [THEN conjunct2, THEN conjunct1]
    by (simp add: one_quiz_store_def docker_basics_def add_quiz_result_def progress_defs)
  moreover have "quiz_results (snd (reset_progress (Some ''docker'') one_quiz_store))
      = quiz_results one_quiz_store"
    using t [THEN conjunct2, THEN conjunct2, THEN conjunct2] .
  ultimately show ?thesis using rows by simp
qed

text \<open>
  C9 as stated fails for the package named by the empty string: the table holds one row
  of git and one row of that package; the reset of that package returns 2 and deletes
  the row of git as well.
\<close>

theorem reset_progress_empty_name_counterexample:
  "map pr_package_name (learning_progress git_and_unnamed) = [''git'', []]
   \<and> fst (reset_progress (Some []) git_and_unnamed) = 2
   \<and> learning_progress (snd (reset_progress (Some []) git_and_unnamed)) = []"
  by (simp add: git_and_unnamed_def reset_progress_def progress_defs)

section \<open>Properties of the tools\<close>

lemma actions_lookup:
  "map_of actions ''get_progress'' = Some (\<lambda>now. ProgressTrackerTool_get_progress)"
  "map_of actions ''get_all_progress'' = Some (\<lambda>now. ProgressTrackerTool_get_all_progress)"
  "map_of actions ''mark_completed'' = Some ProgressTrackerTool_mark_completed"
  "map_of actions ''update_progress'' = Some ProgressTrackerTool_update_progress"
  "map_of actions ''get_stats'' = Some (\<lambda>now. ProgressTrackerTool_get_stats)"
  "map_of actions ''get_profile'' = Some (\<lambda>now. ProgressTrackerTool_get_profile)"
  "map_of actions ''update_profile'' = Some ProgressTrackerTool_update_profile"
  "map_of actions ''add_mastered'' = Some ProgressTrackerTool_add_mastered_concept"
  "map_of actions ''add_weak'' = Some ProgressTrackerTool_add_weak_concept"
  "map_of actions ''reset'' = Some (\<lambda>now. ProgressTrackerTool_reset_progress)"
  "map_of actions ''get_packages'' = Some (\<lambda>now. ProgressTrackerTool_get_packages_studied)"
  by (simp_all add: actions_def)

lemma package_and_topic_given:
  assumes "given (ta_package_name a)" "given (ta_topic a)"
  shows "\<exists>p t. package_and_topic a = Some (p, t)"
  using assms by (auto simp add: given_def package_and_topic_def split: option.splits)

lemma run_known_action:
  assumes "map_of actions action = Some handler"
  shows "ProgressTrackerTool_run now action a d =
     (case handler now a d of Inr (result, d') \<Rightarrow> (result, d')
                            | Inl e \<Rightarrow> (failure (error_str e), d))"
  using assms by (simp add: ProgressTrackerTool_run_def)

lemma update_progress_stored:
  assumes "unique_progress s" "ta_package_name a = Some p" "ta_topic a = Some t"
    "p \<noteq> []" "t \<noteq> []"
    "in_int64 ((case get_progress p t s of Some ex \<Rightarrow> lp_total_time_seconds ex | None \<Rightarrow> 0)
               + (case ta_time_seconds a of Some n \<Rightarrow> n | None \<Rightarrow> 0))"
  shows "\<exists>row_id s' row.
       ProgressTrackerTool_update_progress now a (Available s)
         = Inr (PDict [(''success'', PBool True), (''row_id'', PInt (int row_id)),
                       (''total_time_seconds'', PInt (lp_total_time_seconds row))],
                Available s')
     \<and> ProgressTrackerTool_run now ''update_progress'' a (Available s)
         = (PDict [(''success'', PBool True), (''row_id'', PInt (int row_id)),
                   (''total_time_seconds'', PInt (lp_total_time_seconds row))],
            Available s')
     \<and> get_progress p t s' = Some row
     \<and> lp_id row = Some row_id
     \<and> lp_completed row =
         (case ta_completed a of
            Some c \<Rightarrow> c
          | None \<Rightarrow> (case get_progress p t s of Some ex \<Rightarrow> lp_completed ex | None \<Rightarrow> False))
     \<and> lp_score row =
         (case ta_score a of
            Some x \<Rightarrow> x
          | None \<Rightarrow> (case get_progress p t s of Some ex \<Rightarrow> lp_score ex | None \<Rightarrow> 0))
     \<and> lp_total_time_seconds row =
         (case get_progress p t s of Some ex \<Rightarrow> lp_total_time_seconds ex | None \<Rightarrow> 0)
         + (case ta_time_seconds a of Some n \<Rightarrow> n | None \<Rightarrow> 0)"
proof -
  let ?existing = "get_progress p t s"
  let ?total = "(case ?existing of Some ex \<Rightarrow> lp_total_time_seconds ex | None \<Rightarrow> 0)
                 + py_or (ta_time_seconds a) 0"
  let ?completed = "(case ta_completed a of
            Some c \<Rightarrow> c
          | None \<Rightarrow> (case ?existing of Some ex \<Rightarrow> lp_completed ex | None \<Rightarrow> False))"
  let ?score = "(case ta_score a of
            Some x \<Rightarrow> x
          | None \<Rightarrow> (case ?existing of Some ex \<Rightarrow> lp_score ex | None \<Rightarrow> 0))"
  let ?progress = "\<lparr>lp_id = None, lp_package_name = p, lp_topic = t,
       lp_completed = ?completed, lp_score = ?score, lp_last_accessed = None,
       lp_total_time_seconds = ?total\<rparr>"
  have time: "py_or (ta_time_seconds a) 0 = (case ta_time_seconds a of Some n \<Rightarrow> n | None \<Rightarrow> 0)"
    by (simp add: py_or_def split: option.splits)
  have guard: "package_and_topic a = Some (p, t)"
    using assms(2-5) by (simp add: package_and_topic_def)
  have fits: "in_int64 (lp_total_time_seconds ?progress)"
    using assms(6) by (simp add: time)
  from upsert_progress_result [OF fits assms(1), of now]
  obtain row s' where r: "upsert_progress now ?progress s = Inr (pr_id row, s')"
    "unique_progress s'" "row \<in> set (learning_progress s')"
    "progress_key row = (p, t)" "pr_completed row = ?completed" "pr_score row = ?score"
    "pr_total_time_seconds row = ?total"
    by auto
  have handler: "ProgressTrackerTool_update_progress now a (Available s)
      = Inr (PDict [(''success'', PBool True), (''row_id'', PInt (int (pr_id row))),
                    (''total_time_seconds'', PInt ?total)], Available s')"
    by (simp add: ProgressTrackerTool_update_progress_def guard call_def
        call_raising_value_def r(1) Let_def)
  then have run: "ProgressTrackerTool_run now ''update_progress'' a (Available s)
      = (PDict [(''success'', PBool True), (''row_id'', PInt (int (pr_id row))),
                (''total_time_seconds'', PInt ?total)], Available s')"
    by (simp add: run_known_action [OF actions_lookup(4)])
  have get: "get_progress p t s' = Some (to_LearningProgress row)"
    using r(2,3,4) by (rule get_progress_unique)
  have fields: "lp_id (to_LearningProgress row) = Some (pr_id row)"
    "lp_completed (to_LearningProgress row) = ?completed"
    "lp_score (to_LearningProgress row) = ?score"
    "lp_total_time_seconds (to_LearningProgress row) = ?total"
    using r(5,6,7) by (simp_all add: to_LearningProgress_def)
  from handler run get fields show ?thesis
    unfolding time by (metis (no_types, lifting))
qed

lemma update_progress_overflow:
  assumes "ta_package_name a = Some p" "ta_topic a = Some t" "p \<noteq> []" "t \<noteq> []"
    "\<not> in_int64 ((case get_progress p t s of Some ex \<Rightarrow> lp_total_time_seconds ex | None \<Rightarrow> 0)
                 + (case ta_time_seconds a of Some n \<Rightarrow> n | None \<Rightarrow> 0))"
  shows "ProgressTrackerTool_update_progress now a (Available s)
           = Inl (OverflowError INT_TOO_LARGE)"
    and "ProgressTrackerTool_run now ''update_progress'' a (Available s)
           = (PDict [(''success'', PBool False), (''error'', PStr INT_TOO_LARGE)], Available s)"
proof -
  have time: "py_or (ta_time_seconds a) 0 = (case ta_time_seconds a of Some n \<Rightarrow> n | None \<Rightarrow> 0)"
    by (simp add: py_or_def split: option.splits)
  have guard: "package_and_topic a = Some (p, t)"
    using assms(1-4) by (simp add: package_and_topic_def)
  show handler: "ProgressTrackerTool_update_progress now a (Available s)
           = Inl (OverflowError INT_TOO_LARGE)"
    using assms(5)
    by (simp add: ProgressTrackerTool_update_progress_def guard call_def
        call_raising_value_def upsert_progress_overflow time Let_def)
  then show "ProgressTrackerTool_run now ''update_progress'' a (Available s)
           = (PDict [(''success'', PBool False), (''error'', PStr INT_TOO_LARGE)], Available s)"
    by (simp add: run_known_action [OF actions_lookup(4)] failure_def error_str_def)
qed

lemma update_progress_rejected:
  assumes "\<not> (given (ta_package_name a) \<and> given (ta_topic a))"
  shows "ProgressTrackerTool_update_progress now a d
           = Inr (PDict [(''success'', PBool False),
                         (''error'', PStr ''package_name and topic required'')], d)"
    and "ProgressTrackerTool_run now ''update_progress'' a d
           = (PDict [(''success'', PBool False),
                     (''error'', PStr ''package_name and topic required'')], d)"
proof -
  have none: "package_and_topic a = None"
    using assms by (auto simp add: given_def package_and_topic_def split: option.splits)
  show handler: "ProgressTrackerTool_update_progress now a d
           = Inr (PDict [(''success'', PBool False),
                         (''error'', PStr ''package_name and topic required'')], d)"
    by (simp add: ProgressTrackerTool_update_progress_def none failure_def
        ERR_PKG_TOPIC_REQUIRED_def)
  then show "ProgressTrackerTool_run now ''update_progress'' a d
           = (PDict [(''success'', PBool False),
                     (''error'', PStr ''package_name and topic required'')], d)"
    by (simp add: run_known_action [OF actions_lookup(4)])
qed

text \<open>
  C4, amended. For a package name and a topic that are both non-empty, on a table that
  satisfies UNIQUE(package\_name, topic), and when the merged total time fits the signed
  64-bit range of SQLite's INTEGER, the partial update succeeds and the stored row has:
  the completed flag that was given, else the one of the prior row, else false; the
  score that was given, else the one of the prior row, else 0; and as total time the
  prior total (0 without a prior row) plus the reported increment (0 when none is
  reported). The result reports the row identifier and that total. When the merged total
  does not fit, the write raises OverflowError, the tool returns success false with its
  text, and nothing is stored. With a missing or empty package name or topic the update
  is rejected with the text that both are required, whatever the state of the database
  file, and nothing is stored.
\<close>

theorem update_progress_merges:
  "(unique_progress s \<and> ta_package_name a = Some p \<and> ta_topic a = Some t
      \<and> p \<noteq> [] \<and> t \<noteq> []
      \<and> in_int64 ((case get_progress p t s of Some ex \<Rightarrow> lp_total_time_seconds ex | None \<Rightarrow> 0)
                  + (case ta_time_seconds a of Some n \<Rightarrow> n | None \<Rightarrow> 0)) \<longrightarrow>
     (\<exists>row_id s' row.
         ProgressTrackerTool_update_progress now a (Available s)
           = Inr (PDict [(''success'', PBool True), (''row_id'', PInt (int row_id)),
                         (''total_time_seconds'', PInt (lp_total_time_seconds row))],
                  Available s')
       \<and> ProgressTrackerTool_run now ''update_progress'' a (Available s)
           = (PDict [(''success'', PBool True), (''row_id'', PInt (int row_id)),
                     (''total_time_seconds'', PInt (lp_total_time_seconds row))],
              Available s')
       \<and> get_progress p t s' = Some row
       \<and> lp_id row = Some row_id
       \<and> lp_completed row =
           (case ta_completed a of
              Some c \<Rightarrow> c
            | None \<Rightarrow> (case get_progress p t s of Some ex \<Rightarrow> lp_completed ex | None \<Rightarrow> False))
       \<and> lp_score row =
           (case ta_score a of
              Some x \<Rightarrow> x
            | None \<Rightarrow> (case get_progress p t s of Some ex \<Rightarrow> lp_score ex | None \<Rightarrow> 0))
       \<and> lp_total_time_seconds row =
           (case get_progress p t s of Some ex \<Rightarrow> lp_total_time_seconds ex | None \<Rightarrow> 0)
           + (case ta_time_seconds a of Some n \<Rightarrow> n | None \<Rightarrow> 0)))
   \<and> (ta_package_name a = Some p \<and> ta_topic a = Some t \<and> p \<noteq> [] \<and> t \<noteq> []
      \<and> \<not> in_int64 ((case get_progress p t s of Some ex \<Rightarrow> lp_total_time_seconds ex | None \<Rightarrow> 0)
                    + (case ta_time_seconds a of Some n \<Rightarrow> n | None \<Rightarrow> 0)) \<longrightarrow>
       ProgressTrackerTool_update_progress now a (Available s)
         = Inl (OverflowError INT_TOO_LARGE)
     \<and> ProgressTrackerTool_run now ''update_progress'' a (Available s)
         = (PDict [(''success'', PBool False), (''error'', PStr INT_TOO_LARGE)], Available s))
   \<and> (\<not> (given (ta_package_name a) \<and> given (ta_topic a)) \<longrightarrow>
       ProgressTrackerTool_update_progress now a d
         = Inr (PDict [(''success'', PBool False),
                       (''error'', PStr ''package_name and topic required'')], d)
     \<and> ProgressTrackerTool_run now ''update_progress'' a d
         = (PDict [(''success'', PBool False),
                   (''error'', PStr ''package_name and topic required'')], d))"
proof (intro conjI impI)
  assume "unique_progress s \<and> ta_package_name a = Some p \<and> ta_topic a = Some t
      \<and> p \<noteq> [] \<and> t \<noteq> []
      \<and> in_int64 ((case get_progress p t s of Some ex \<Rightarrow> lp_total_time_seconds ex | None \<Rightarrow> 0)
                  + (case ta_time_seconds a of Some n \<Rightarrow> n | None \<Rightarrow> 0))"
  then have h: "unique_progress s" "ta_package_name a = Some p" "ta_topic a = Some t"
    "p \<noteq> []" "t \<noteq> []"
    "in_int64 ((case get_progress p t s of Some ex \<Rightarrow> lp_total_time_seconds ex | None \<Rightarrow> 0)
               + (case ta_time_seconds a of Some n \<Rightarrow> n | None \<Rightarrow> 0))"
    by simp_all
  show "\<exists>row_id s' row.
         ProgressTrackerTool_update_progress now a (Available s)
           = Inr (PDict [(''success'', PBool True), (''row_id'', PInt (int row_id)),
                         (''total_time_seconds'', PInt (lp_total_time_seconds row))],
                  Available s')
       \<and> ProgressTrackerTool_run now ''update_progress'' a (Available s)
           = (PDict [(''success'', PBool True), (''row_id'', PInt (int row_id)),
                     (''total_time_seconds'', PInt (lp_total_time_seconds row))],
              Available s')
       \<and> get_progress p t s' = Some row
       \<and> lp_id row = Some row_id
       \<and> lp_completed row =
           (case ta_completed a of
              Some c \<Rightarrow> c
            | None \<Rightarrow> (case get_progress p t s of Some ex \<Rightarrow> lp_completed ex | None \<Rightarrow> False))
       \<and> lp_score row =
           (case ta_score a of
              Some x \<Rightarrow> x
            | None \<Rightarrow> (case get_progress p t s of Some ex \<Rightarrow> lp_score ex | None \<Rightarrow> 0))
       \<and> lp_total_time_seconds row =
           (case get_progress p t s of Some ex \<Rightarrow> lp_total_time_seconds ex | None \<Rightarrow> 0)
           + (case ta_time_seconds a of Some n \<Rightarrow> n | None \<Rightarrow> 0)"
    using h by (rule update_progress_stored)
next
  assume "ta_package_name a = Some p \<and> ta_topic a = Some t \<and> p \<noteq> [] \<and> t \<noteq> []
      \<and> \<not> in_int64 ((case get_progress p t s of Some ex \<Rightarrow> lp_total_time_seconds ex | None \<Rightarrow> 0)
                    + (case ta_time_seconds a of Some n \<Rightarrow> n | None \<Rightarrow> 0))"
  then have h: "ta_package_name a = Some p" "ta_topic a = Some t" "p \<noteq> []" "t \<noteq> []"
    "\<not> in_int64 ((case get_progress p t s of Some ex \<Rightarrow> lp_total_time_seconds ex | None \<Rightarrow> 0)
                 + (case ta_time_seconds a of Some n \<Rightarrow> n | None \<Rightarrow> 0))"
    by simp_all
  show "ProgressTrackerTool_update_progress now a (Available s)
         = Inl (OverflowError INT_TOO_LARGE)"
    using h by (rule update_progress_overflow(1))
  show "ProgressTrackerTool_run now ''update_progress'' a (Available s)
         = (PDict [(''success'', PBool False), (''error'', PStr INT_TOO_LARGE)], Available s)"
    using h by (rule update_progress_overflow(2))
next
  assume h: "\<not> (given (ta_package_name a) \<and> given (ta_topic a))"
  show "ProgressTrackerTool_update_progress now a d
         = Inr (PDict [(''success'', PBool False),
                       (''error'', PStr ''package_name and topic required'')], d)"
    using h by (rule update_progress_rejected(1))
  show "ProgressTrackerTool_run now ''update_progress'' a d
         = (PDict [(''success'', PBool False),
                   (''error'', PStr ''package_name and topic required'')], d)"
    using h by (rule update_progress_rejected(2))
qed

lemmas tool_defs = ProgressTrackerTool_run_def actions_def call_def call_raising_def
  call_raising_value_def failure_def package_and_topic_def given_def py_str_def
  error_str_def
  ProgressTrackerTool_get_progress_def ProgressTrackerTool_get_all_progress_def
  ProgressTrackerTool_mark_completed_def ProgressTrackerTool_update_progress_def
  ProgressTrackerTool_get_stats_def ProgressTrackerTool_get_profile_def
  ProgressTrackerTool_update_profile_def ProgressTrackerTool_add_mastered_concept_def
  ProgressTrackerTool_add_weak_concept_def ProgressTrackerTool_reset_progress_def
  ProgressTrackerTool_get_packages_studied_def

theorem update_progress_merges_witness:
  "unique_progress (after_upsert 1 docker_basics empty_store)
   \<and> ''docker'' \<noteq> [] \<and> ''basics'' \<noteq> [] \<and> in_int64 (600 + 30)
   \<and> (\<exists>row_id s' row.
         ProgressTrackerTool_update_progress 2
            (no_args\<lparr>ta_package_name := Some ''docker'', ta_topic := Some ''basics'',
                     ta_time_seconds := Some 30\<rparr>)
            (Available (after_upsert 1 docker_basics empty_store))
           = Inr (PDict [(''success'', PBool True), (''row_id'', PInt (int row_id)),
                         (''total_time_seconds'', PInt 630)], Available s')
       \<and> get_progress ''docker'' ''basics'' s' = Some row
       \<and> \<not> lp_completed row \<and> lp_score row = 0.5 \<and> lp_total_time_seconds row = 630)
   \<and> \<not> in_int64 (600 + 2 ^ 63)
   \<and> ProgressTrackerTool_run 2 ''update_progress''
        (no_args\<lparr>ta_package_name := Some ''docker'', ta_topic := Some ''basics'',
                 ta_time_seconds := Some (2 ^ 63)\<rparr>)
        (Available (after_upsert 1 docker_basics empty_store))
      = (PDict [(''success'', PBool False), (''error'', PStr INT_TOO_LARGE)],
         Available (after_upsert 1 docker_basics empty_store))
   \<and> \<not> given (ta_topic no_args)
   \<and> ProgressTrackerTool_run 2 ''update_progress'' no_args
        (Available (after_upsert 1 docker_basics empty_store))
      = (PDict [(''success'', PBool False),
                (''error'', PStr ''package_name and topic required'')],
         Available (after_upsert 1 docker_basics empty_store))"
proof -
  let ?s = "after_upsert 1 docker_basics empty_store"
  let ?a = "no_args\<lparr>ta_package_name := Some ''docker'', ta_topic := Some ''basics'',
                     ta_time_seconds := Some 30\<rparr>"
  let ?b = "no_args\<lparr>ta_package_name := Some ''docker'', ta_topic := Some ''basics'',
                     ta_time_seconds := Some (2 ^ 63)\<rparr>"
  have u: "unique_progress ?s"
    by (simp add: unique_progress_def progress_defs docker_basics_def progress_key_def)
  have g: "get_progress ''docker'' ''basics'' ?s
     = Some \<lparr>lp_id = Some 1, lp_package_name = ''docker'', lp_topic = ''basics'',
             lp_completed = False, lp_score = 0.5, lp_last_accessed = Some 1,
             lp_total_time_seconds = 600\<rparr>"
    by (simp add: progress_defs docker_basics_def)
  have fits: "in_int64 (600 + 30)" and big: "\<not> in_int64 (600 + 2 ^ 63)"
    by (simp_all add: in_int64_def)
  have ha: "unique_progress ?s \<and> ta_package_name ?a = Some ''docker''
      \<and> ta_topic ?a = Some ''basics'' \<and> ''docker'' \<noteq> [] \<and> ''basics'' \<noteq> []
      \<and> in_int64 ((case get_progress ''docker'' ''basics'' ?s of
                      Some ex \<Rightarrow> lp_total_time_seconds ex | None \<Rightarrow> 0)
                  + (case ta_time_seconds ?a of Some n \<Rightarrow> n | None \<Rightarrow> 0))"
    using u fits by (simp add: g no_args_def)
  from update_progress_merges [where s = ?s and a = ?a and p = "''docker''"
      and t = "''basics''" and now = 2, THEN conjunct1, THEN mp, OF ha]
  obtain row_id s' row where
      "ProgressTrackerTool_update_progress 2 ?a (Available ?s)
         = Inr (PDict [(''success'', PBool True), (''row_id'', PInt (int row_id)),
                       (''total_time_seconds'', PInt (lp_total_time_seconds row))],
                Available s')"
      "get_progress ''docker'' ''basics'' s' = Some row"
      "lp_completed row = False" "lp_score row = 0.5" "lp_total_time_seconds row = 630"
    unfolding g by (auto simp add: no_args_def)
  then have first: "\<exists>row_id s' row.
         ProgressTrackerTool_update_progress 2 ?a (Available ?s)
           = Inr (PDict [(''success'', PBool True), (''row_id'', PInt (int row_id)),
                         (''total_time_seconds'', PInt 630)], Available s')
       \<and> get_progress ''docker'' ''basics'' s' = Some row
       \<and> \<not> lp_completed row \<and> lp_score row = 0.5 \<and> lp_total_time_seconds row = 630"
    by auto
  have hb: "ta_package_name ?b = Some ''docker'' \<and> ta_topic ?b = Some ''basics''
      \<and> ''docker'' \<noteq> [] \<and> ''basics'' \<noteq> []
      \<and> \<not> in_int64 ((case get_progress ''docker'' ''basics'' ?s of
                      Some ex \<Rightarrow> lp_total_time_seconds ex | None \<Rightarrow> 0)
                  + (case ta_time_seconds ?b of Some n \<Rightarrow> n | None \<Rightarrow> 0))"
    using big by (simp add: g no_args_def)
  note second = update_progress_merges [where s = ?s and a = ?b and p = "''docker''"
      and t = "''basics''" and now = 2, THEN conjunct2, THEN conjunct1, THEN mp, OF hb,
      THEN conjunct2]
  have ng: "\<not> given (ta_topic no_args)"
    by (simp add: given_def no_args_def)
  then have hc: "\<not> (given (ta_package_name no_args) \<and> given (ta_topic no_args))"
    by simp
  note third = update_progress_merges [where a = no_args and now = 2 and d = "Available ?s",
      THEN conjunct2, THEN conjunct2, THEN mp, OF hc, THEN conjunct2]
  from u fits first big second ng third show ?thesis
    by (intro conjI) simp_all
qed

text \<open>
  C4 as stated fails for a pair with an empty package name: the table holds a row of that
  pair with a total time of 10; the update with an increment of 5 is rejected by the
  guard and the stored total stays 10.
\<close>

theorem update_progress_rejects_empty_package_counterexample:
  "map pr_total_time_seconds (learning_progress unnamed_ten) = [10]
   \<and> ProgressTrackerTool_run 2 ''update_progress''
        (no_args\<lparr>ta_package_name := Some [], ta_topic := Some ''basics'',
                 ta_time_seconds := Some 5\<rparr>)
        (Available unnamed_ten)
      = (PDict [(''success'', PBool False),
                (''error'', PStr ''package_name and topic required'')],
         Available unnamed_ten)"
  by (simp add: unnamed_ten_def progress_defs no_args_def tool_defs
      ERR_PKG_TOPIC_REQUIRED_def)

lemma handlers_unavailable:
  "given (ta_package_name a) \<Longrightarrow> given (ta_topic a) \<Longrightarrow>
     ProgressTrackerTool_get_progress a (Unavailable e) = Inl e"
  "ProgressTrackerTool_get_all_progress a (Unavailable e) = Inl e"
  "given (ta_package_name a) \<Longrightarrow> given (ta_topic a) \<Longrightarrow>
     ProgressTrackerTool_mark_completed now a (Unavailable e) = Inl e"
  "given (ta_package_name a) \<Longrightarrow> given (ta_topic a) \<Longrightarrow>
     ProgressTrackerTool_update_progress now a (Unavailable e) = Inl e"
  "given (ta_package_name a) \<Longrightarrow> ProgressTrackerTool_get_stats a (Unavailable e) = Inl e"
  "ProgressTrackerTool_get_profile a (Unavailable e) = Inl e"
  "ProgressTrackerTool_update_profile now a (Unavailable e) = Inl e"
  "given (ta_concept a) \<Longrightarrow> ProgressTrackerTool_add_mastered_concept now a (Unavailable e) = Inl e"
  "given (ta_concept a) \<Longrightarrow> ProgressTrackerTool_add_weak_concept now a (Unavailable e) = Inl e"
  "ProgressTrackerTool_reset_progress a (Unavailable e) = Inl e"
  "ProgressTrackerTool_get_packages_studied a (Unavailable e) = Inl e"
proof -
  show "ProgressTrackerTool_get_progress a (Unavailable e) = Inl e"
    if "given (ta_package_name a)" "given (ta_topic a)"
    using package_and_topic_given [OF that]
    by (auto simp add: ProgressTrackerTool_get_progress_def call_def)
  show "ProgressTrackerTool_mark_completed now a (Unavailable e) = Inl e"
    if "given (ta_package_name a)" "given (ta_topic a)"
    using package_and_topic_given [OF that]
    by (auto simp add: ProgressTrackerTool_mark_completed_def call_raising_def)
  show "ProgressTrackerTool_update_progress now a (Unavailable e) = Inl e"
    if "given (ta_package_name a)" "given (ta_topic a)"
    using package_and_topic_given [OF that]
    by (auto simp add: ProgressTrackerTool_update_progress_def call_def)
  show "ProgressTrackerTool_get_stats a (Unavailable e) = Inl e" if "given (ta_package_name a)"
    using that by (simp add: ProgressTrackerTool_get_stats_def call_raising_value_def)
  show "ProgressTrackerTool_add_mastered_concept now a (Unavailable e) = Inl e"
    if "given (ta_concept a)"
    using that by (simp add: ProgressTrackerTool_add_mastered_concept_def call_raising_def)
  show "ProgressTrackerTool_add_weak_concept now a (Unavailable e) = Inl e"
    if "given (ta_concept a)"
    using that by (simp add: ProgressTrackerTool_add_weak_concept_def call_raising_def)
qed (simp_all add: ProgressTrackerTool_get_all_progress_def ProgressTrackerTool_get_profile_def
    ProgressTrackerTool_update_profile_def ProgressTrackerTool_reset_progress_def
    ProgressTrackerTool_get_packages_studied_def call_def)

lemma handlers_unavailable_rejected:
  "\<not> (given (ta_package_name a) \<and> given (ta_topic a)) \<Longrightarrow>
     ProgressTrackerTool_get_progress a d = Inr (failure ERR_PKG_TOPIC_REQUIRED, d)"
  "\<not> (given (ta_package_name a) \<and> given (ta_topic a)) \<Longrightarrow>
     ProgressTrackerTool_mark_completed now a d = Inr (failure ERR_PKG_TOPIC_REQUIRED, d)"
  "\<not> (given (ta_package_name a) \<and> given (ta_topic a)) \<Longrightarrow>
     ProgressTrackerTool_update_progress now a d = Inr (failure ERR_PKG_TOPIC_REQUIRED, d)"
  "\<not> given (ta_package_name a) \<Longrightarrow>
     ProgressTrackerTool_get_stats a d = Inr (failure ''package_name required'', d)"
  "\<not> given (ta_concept a) \<Longrightarrow>
     ProgressTrackerTool_add_mastered_concept now a d = Inr (failure ''concept required'', d)"
  "\<not> given (ta_concept a) \<Longrightarrow>
     ProgressTrackerTool_add_weak_concept now a d = Inr (failure ''concept required'', d)"
proof -
  have none: "package_and_topic a = None" if "\<not> (given (ta_package_name a) \<and> given (ta_topic a))"
    using that by (auto simp add: given_def package_and_topic_def split: option.splits)
  show "ProgressTrackerTool_get_progress a d = Inr (failure ERR_PKG_TOPIC_REQUIRED, d)"
    if "\<not> (given (ta_package_name a) \<and> given (ta_topic a))"
    using none [OF that] by (simp add: ProgressTrackerTool_get_progress_def)
  show "ProgressTrackerTool_mark_completed now a d = Inr (failure ERR_PKG_TOPIC_REQUIRED, d)"
    if "\<not> (given (ta_package_name a) \<and> given (ta_topic a))"
    using none [OF that] by (simp add: ProgressTrackerTool_mark_completed_def)
  show "ProgressTrackerTool_update_progress now a d = Inr (failure ERR_PKG_TOPIC_REQUIRED, d)"
    if "\<not> (given (ta_package_name a) \<and> given (ta_topic a))"
    using none [OF that] by (simp add: ProgressTrackerTool_update_progress_def)
qed (simp_all add: ProgressTrackerTool_get_stats_def ProgressTrackerTool_add_mastered_concept_def
    ProgressTrackerTool_add_weak_concept_def)

lemma handler_unavailable_shape:
  assumes "(action, handler) \<in> set actions"
  shows "handler now a (Unavailable e) = Inl e
       \<or> (\<exists>msg. handler now a (Unavailable e) = Inr (failure msg, Unavailable e))"
proof -
  from assms consider
      "handler = (\<lambda>now. ProgressTrackerTool_get_progress)"
    | "handler = (\<lambda>now. ProgressTrackerTool_get_all_progress)"
    | "handler = ProgressTrackerTool_mark_completed"
    | "handler = ProgressTrackerTool_update_progress"
    | "handler = (\<lambda>now. ProgressTrackerTool_get_stats)"
    | "handler = (\<lambda>now. ProgressTrackerTool_get_profile)"
    | "handler = ProgressTrackerTool_update_profile"
    | "handler = ProgressTrackerTool_add_mastered_concept"
    | "handler = ProgressTrackerTool_add_weak_concept"
    | "handler = (\<lambda>now. ProgressTrackerTool_reset_progress)"
    | "handler = (\<lambda>now. ProgressTrackerTool_get_packages_studied)"
    unfolding actions_def by auto
  then show ?thesis
  proof cases
    case 1
    then show ?thesis
      using handlers_unavailable(1) [of a e] handlers_unavailable_rejected(1) [of a "Unavailable e"]
      by (cases "given (ta_package_name a) \<and> given (ta_topic a)") auto
  next
    case 2
    then show ?thesis by (simp add: handlers_unavailable)
  next
    case 3
    then show ?thesis
      using handlers_unavailable(3) [of a now e]
        handlers_unavailable_rejected(2) [of a now "Unavailable e"]
      by (cases "given (ta_package_name a) \<and> given (ta_topic a)") auto
  next
    case 4
    then show ?thesis
      using handlers_unavailable(4) [of a now e]
        handlers_unavailable_rejected(3) [of a now "Unavailable e"]
      by (cases "given (ta_package_name a) \<and> given (ta_topic a)") auto
  next
    case 5
    then show ?thesis
      using handlers_unavailable(5) [of a e] handlers_unavailable_rejected(4) [of a "Unavailable e"]
      by (cases "given (ta_package_name a)") auto
  next
    case 6
    then show ?thesis by (simp add: handlers_unavailable)
  next
    case 7
    then show ?thesis by (simp add: handlers_unavailable)
  next
    case 8
    then show ?thesis
      using handlers_unavailable(8) [of a now e]
        handlers_unavailable_rejected(5) [of a now "Unavailable e"]
      by (cases "given (ta_concept a)") auto
  next
    case 9
    then show ?thesis
      using handlers_unavailable(9) [of a now e]
        handlers_unavailable_rejected(6) [of a now "Unavailable e"]
      by (cases "given (ta_concept a)") auto
  next
    case 10
    then show ?thesis by (simp add: handlers_unavailable)
  next
    case 11
    then show ?thesis by (simp add: handlers_unavailable)
  qed
qed

lemma run_unavailable_failure:
  "\<exists>msg. ProgressTrackerTool_run now action a (Unavailable e) = (failure msg, Unavailable e)"
proof (cases "map_of actions action")
  case None
  then have "ProgressTrackerTool_run now action a (Unavailable e)
      = (failure (''Unknown action: '' @ action @ ''. Valid actions: ''
                    @ repr_str_list (map fst actions)), Unavailable e)"
    by (simp add: ProgressTrackerTool_run_def)
  then show ?thesis by (rule exI)
next
  case (Some handler)
  then have "(action, handler) \<in> set actions" by (rule map_of_SomeD)
  from handler_unavailable_shape [OF this, of now a e] show ?thesis
  proof
    assume "handler now a (Unavailable e) = Inl e"
    then have "ProgressTrackerTool_run now action a (Unavailable e)
        = (failure (error_str e), Unavailable e)"
      by (simp add: run_known_action [OF Some])
    then show ?thesis by (rule exI)
  next
    assume "\<exists>msg. handler now a (Unavailable e) = Inr (failure msg, Unavailable e)"
    then obtain msg where "handler now a (Unavailable e) = Inr (failure msg, Unavailable e)"
      by blast
    then have "ProgressTrackerTool_run now action a (Unavailable e)
        = (failure msg, Unavailable e)"
      by (simp add: run_known_action [OF Some])
    then show ?thesis by (rule exI)
  qed
qed

lemma run_unavailable_each:
  "ProgressTrackerTool_run now ''get_all_progress'' a (Unavailable e)
     = (failure (error_str e), Unavailable e)"
  "ProgressTrackerTool_run now ''get_profile'' a (Unavailable e)
     = (failure (error_str e), Unavailable e)"
  "ProgressTrackerTool_run now ''update_profile'' a (Unavailable e)
     = (failure (error_str e), Unavailable e)"
  "ProgressTrackerTool_run now ''reset'' a (Unavailable e)
     = (failure (error_str e), Unavailable e)"
  "ProgressTrackerTool_run now ''get_packages'' a (Unavailable e)
     = (failure (error_str e), Unavailable e)"
  "given (ta_package_name a) \<Longrightarrow> given (ta_topic a) \<Longrightarrow>
   ProgressTrackerTool_run now ''get_progress'' a (Unavailable e)
     = (failure (error_str e), Unavailable e)"
  "given (ta_package_name a) \<Longrightarrow> given (ta_topic a) \<Longrightarrow>
   ProgressTrackerTool_run now ''mark_completed'' a (Unavailable e)
     = (failure (error_str e), Unavailable e)"
  "given (ta_package_name a) \<Longrightarrow> given (ta_topic a) \<Longrightarrow>
   ProgressTrackerTool_run now ''update_progress'' a (Unavailable e)
     = (failure (error_str e), Unavailable e)"
  "given (ta_package_name a) \<Longrightarrow>
   ProgressTrackerTool_run now ''get_stats'' a (Unavailable e)
     = (failure (error_str e), Unavailable e)"
  "given (ta_concept a) \<Longrightarrow>
   ProgressTrackerTool_run now ''add_mastered'' a (Unavailable e)
     = (failure (error_str e), Unavailable e)"
  "given (ta_concept a) \<Longrightarrow>
   ProgressTrackerTool_run now ''add_weak'' a (Unavailable e)
     = (failure (error_str e), Unavailable e)"
  by (simp_all add: run_known_action [OF actions_lookup(1)]
        run_known_action [OF actions_lookup(2)] run_known_action [OF actions_lookup(3)]
        run_known_action [OF actions_lookup(4)] run_known_action [OF actions_lookup(5)]
        run_known_action [OF actions_lookup(6)] run_known_action [OF actions_lookup(7)]
        run_known_action [OF actions_lookup(8)] run_known_action [OF actions_lookup(9)]
        run_known_action [OF actions_lookup(10)] run_known_action [OF actions_lookup(11)]
        handlers_unavailable)

lemma run_unavailable_caught:
  assumes "action \<in> set [''get_all_progress'', ''get_profile'', ''update_profile'', ''reset'',
                       ''get_packages'']
        \<or> action \<in> set [''get_progress'', ''mark_completed'', ''update_progress'']
            \<and> given (ta_package_name a) \<and> given (ta_topic a)
        \<or> action = ''get_stats'' \<and> given (ta_package_name a)
        \<or> action \<in> set [''add_mastered'', ''add_weak''] \<and> given (ta_concept a)"
  shows "ProgressTrackerTool_run now action a (Unavailable e)
             = (failure (error_str e), Unavailable e)"
  using assms
  by (auto simp only: list.set insert_iff empty_iff intro: run_unavailable_each)

text \<open>
  C2, amended. On a failing database file every method of the store raises the storage
  error as it is. The two tools do not let it pass: \<open>ProgressTrackerTool._run\<close> always
  returns a result with success false and an error text, and that text is the text of
  the storage error whenever the action is known and its required arguments are given;
  \<open>LessonLoaderTool._run\<close>, unless a fresh lesson is forced, returns success false, no
  cache hit, no lesson and the text of the storage error.
\<close>

theorem storage_errors_become_results:
  "call (Unavailable e) method = Inl e
   \<and> call_raising (Unavailable e) raising_method = Inl e
   \<and> call_raising_value (Unavailable e) value_method = Inl e
   \<and> (\<exists>msg. ProgressTrackerTool_run now action a (Unavailable e)
               = (PDict [(''success'', PBool False), (''error'', PStr msg)], Unavailable e))
   \<and> (action \<in> set [''get_all_progress'', ''get_profile'', ''update_profile'', ''reset'',
                       ''get_packages'']
        \<or> action \<in> set [''get_progress'', ''mark_completed'', ''update_progress'']
            \<and> given (ta_package_name a) \<and> given (ta_topic a)
        \<or> action = ''get_stats'' \<and> given (ta_package_name a)
        \<or> action \<in> set [''add_mastered'', ''add_weak''] \<and> given (ta_concept a)
       \<longrightarrow> ProgressTrackerTool_run now action a (Unavailable e)
             = (PDict [(''success'', PBool False), (''error'', PStr (error_str e))],
                Unavailable e))
   \<and> (\<not> force_fresh \<longrightarrow>
         LessonLoaderTool_run now package_name force_fresh (Unavailable e)
           = PDict [(''success'', PBool False), (''cache_hit'', PBool False),
                    (''lesson'', PNone), (''error'', PStr (error_str e))])"
proof (intro conjI impI)
  show "call (Unavailable e) method = Inl e" by (simp add: call_def)
  show "call_raising (Unavailable e) raising_method = Inl e" by (simp add: call_raising_def)
  show "call_raising_value (Unavailable e) value_method = Inl e"
    by (simp add: call_raising_value_def)
  show "\<exists>msg. ProgressTrackerTool_run now action a (Unavailable e)
               = (PDict [(''success'', PBool False), (''error'', PStr msg)], Unavailable e)"
    using run_unavailable_failure [of now action a e] by (simp add: failure_def)
next
  assume "\<not> force_fresh"
  then show "LessonLoaderTool_run now package_name force_fresh (Unavailable e)
           = PDict [(''success'', PBool False), (''cache_hit'', PBool False),
                    (''lesson'', PNone), (''error'', PStr (error_str e))]"
    by (simp add: LessonLoaderTool_run_def call_def)
next
  assume "action \<in> set [''get_all_progress'', ''get_profile'', ''update_profile'', ''reset'',
                       ''get_packages'']
        \<or> action \<in> set [''get_progress'', ''mark_completed'', ''update_progress'']
            \<and> given (ta_package_name a) \<and> given (ta_topic a)
        \<or> action = ''get_stats'' \<and> given (ta_package_name a)
        \<or> action \<in> set [''add_mastered'', ''add_weak''] \<and> given (ta_concept a)"
  then have "ProgressTrackerTool_run now action a (Unavailable e)
             = (failure (error_str e), Unavailable e)"
    by (rule run_unavailable_caught)
  then show "ProgressTrackerTool_run now action a (Unavailable e)
             = (PDict [(''success'', PBool False), (''error'', PStr (error_str e))],
                Unavailable e)"
    by (simp add: failure_def)
qed

theorem storage_errors_become_results_witness:
  "ProgressTrackerTool_run 1 ''get_stats'' (no_args\<lparr>ta_package_name := Some ''docker''\<rparr>)
      (Unavailable (StorageError ''disk I/O error''))
     = (PDict [(''success'', PBool False), (''error'', PStr ''disk I/O error'')],
        Unavailable (StorageError ''disk I/O error''))
   \<and> LessonLoaderTool_run 1 ''docker'' False (Unavailable (StorageError ''disk I/O error''))
     = PDict [(''success'', PBool False), (''cache_hit'', PBool False),
              (''lesson'', PNone), (''error'', PStr ''disk I/O error'')]"
proof -
  have g: "given (ta_package_name (no_args\<lparr>ta_package_name := Some ''docker''\<rparr>))"
    by (simp add: given_def)
  note t = storage_errors_become_results [where e = "StorageError ''disk I/O error''"
      and now = 1 and action = "''get_stats''"
      and a = "no_args\<lparr>ta_package_name := Some ''docker''\<rparr>"
      and force_fresh = False and package_name = "''docker''"]
  have "ProgressTrackerTool_run 1 ''get_stats'' (no_args\<lparr>ta_package_name := Some ''docker''\<rparr>)
      (Unavailable (StorageError ''disk I/O error''))
     = (PDict [(''success'', PBool False),
               (''error'', PStr (error_str (StorageError ''disk I/O error'')))],
        Unavailable (StorageError ''disk I/O error''))"
    using g by (intro t [THEN conjunct2, THEN conjunct2, THEN conjunct2, THEN conjunct2,
        THEN conjunct1, THEN mp])
      simp
  moreover have "LessonLoaderTool_run 1 ''docker'' False (Unavailable (StorageError ''disk I/O error''))
     = PDict [(''success'', PBool False), (''cache_hit'', PBool False),
              (''lesson'', PNone), (''error'', PStr (error_str (StorageError ''disk I/O error'')))]"
    by (intro t [THEN conjunct2, THEN conjunct2, THEN conjunct2, THEN conjunct2,
        THEN conjunct2, THEN mp]) simp
  ultimately show ?thesis by (simp add: error_str_def)
qed

text \<open>
  C2 as stated fails at the tool layer: with a file that fails with a disk error the
  store's method raises it, and both \<open>_run\<close> methods return an ordinary result that
  carries only its text.
\<close>

theorem tools_swallow_storage_error_counterexample:
  "call (Unavailable (StorageError ''disk I/O error''))
        (get_student_profile) = Inl (StorageError ''disk I/O error'')
   \<and> ProgressTrackerTool_run 1 ''get_profile'' no_args
        (Unavailable (StorageError ''disk I/O error''))
     = (PDict [(''success'', PBool False), (''error'', PStr ''disk I/O error'')],
        Unavailable (StorageError ''disk I/O error''))
   \<and> LessonLoaderTool_run 1 ''docker'' False (Unavailable (StorageError ''disk I/O error''))
     = PDict [(''success'', PBool False), (''cache_hit'', PBool False),
              (''lesson'', PNone), (''error'', PStr ''disk I/O error'')]"
  by (simp add: ProgressTrackerTool_run_def actions_def ProgressTrackerTool_get_profile_def
      LessonLoaderTool_run_def call_def failure_def error_str_def)

section \<open>Properties of the validators\<close>

lemma nullable_lang: "nullable r \<longleftrightarrow> [] \<in> lang r"
  by (induction r) (auto intro: kleene_Nil)

lemma kleene_Cons_split:
  assumes "x \<in> kleene A" "x = c # w"
  shows "\<exists>u v. w = u @ v \<and> c # u \<in> A \<and> v \<in> kleene A"
  using assms
proof (induction arbitrary: w)
  case kleene_Nil
  then show ?case by simp
next
  case (kleene_append u v)
  show ?case
  proof (cases u)
    case Nil
    with kleene_append.prems have "v = c # w" by simp
    then show ?thesis by (rule kleene_append.IH)
  next
    case (Cons a u')
    with kleene_append.prems have "a = c" "w = u' @ v" by simp_all
    with Cons kleene_append.hyps show ?thesis by blast
  qed
qed

lemma kleene_Cons: "c # w \<in> kleene A \<longleftrightarrow> (\<exists>u v. w = u @ v \<and> c # u \<in> A \<and> v \<in> kleene A)"
proof
  assume "c # w \<in> kleene A"
  then show "\<exists>u v. w = u @ v \<and> c # u \<in> A \<and> v \<in> kleene A"
    by (rule kleene_Cons_split) simp
next
  assume "\<exists>u v. w = u @ v \<and> c # u \<in> A \<and> v \<in> kleene A"
  then obtain u v where "w = u @ v" "c # u \<in> A" "v \<in> kleene A" by blast
  then have "(c # u) @ v \<in> kleene A" by (intro kleene_append)
  with \<open>w = u @ v\<close> show "c # w \<in> kleene A" by simp
qed

lemma lang_deriv: "w \<in> lang (deriv c r) \<longleftrightarrow> c # w \<in> lang r"
proof (induction r arbitrary: w)
  case (Seq r s)
  have "c # w \<in> lang (Seq r s) \<longleftrightarrow>
        (\<exists>u v. w = u @ v \<and> c # u \<in> lang r \<and> v \<in> lang s) \<or> ([] \<in> lang r \<and> c # w \<in> lang s)"
    by (auto simp add: Cons_eq_append_conv)
  then show ?case
    using Seq by (auto simp add: nullable_lang)
next
  case (Star r)
  then show ?case by (auto simp add: kleene_Cons)
qed auto

lemma fullmatch_lang: "fullmatch r s \<longleftrightarrow> s \<in> lang r"
  by (induction s arbitrary: r) (simp_all add: nullable_lang lang_deriv)

lemma prefix_match_lang: "prefix_match r s \<longleftrightarrow> (\<exists>u v. s = u @ v \<and> u \<in> lang r)"
proof (induction s arbitrary: r)
  case Nil
  then show ?case by (simp add: nullable_lang)
next
  case (Cons c cs)
  have "(\<exists>u v. c # cs = u @ v \<and> u \<in> lang r)
        \<longleftrightarrow> [] \<in> lang r \<or> (\<exists>u v. cs = u @ v \<and> c # u \<in> lang r)"
    by (auto simp add: Cons_eq_append_conv)
  then show ?case
    using Cons by (simp add: nullable_lang lang_deriv)
qed

lemma search_lang: "search r s \<longleftrightarrow> (\<exists>u v w. s = u @ v @ w \<and> v \<in> lang r)"
proof (induction s)
  case Nil
  then show ?case by (simp add: nullable_lang)
next
  case (Cons c cs)
  have "(\<exists>u v w. c # cs = u @ v @ w \<and> v \<in> lang r)
        \<longleftrightarrow> (\<exists>v w. c # cs = v @ w \<and> v \<in> lang r) \<or> (\<exists>u v w. cs = u @ v @ w \<and> v \<in> lang r)"
  proof
    assume "\<exists>u v w. c # cs = u @ v @ w \<and> v \<in> lang r"
    then obtain u v w where h: "c # cs = u @ v @ w" "v \<in> lang r" by blast
    show "(\<exists>v w. c # cs = v @ w \<and> v \<in> lang r) \<or> (\<exists>u v w. cs = u @ v @ w \<and> v \<in> lang r)"
    proof (cases u)
      case Nil
      with h show ?thesis by auto
    next
      case (Cons a u')
      with h have "cs = u' @ v @ w" by simp
      with h(2) show ?thesis by blast
    qed
  next
    assume "(\<exists>v w. c # cs = v @ w \<and> v \<in> lang r) \<or> (\<exists>u v w. cs = u @ v @ w \<and> v \<in> lang r)"
    then show "\<exists>u v w. c # cs = u @ v @ w \<and> v \<in> lang r"
    proof
      assume "\<exists>v w. c # cs = v @ w \<and> v \<in> lang r"
      then obtain v w where "c # cs = [] @ v @ w" "v \<in> lang r" by auto
      then show ?thesis by blast
    next
      assume "\<exists>u v w. cs = u @ v @ w \<and> v \<in> lang r"
      then obtain u v w where "c # cs = (c # u) @ v @ w" "v \<in> lang r" by auto
      then show ?thesis by blast
    qed
  qed
  then show ?case
    using Cons prefix_match_lang [of r "c # cs"] by simp
qed

lemma kleene_atoms: "w \<in> kleene {[c] |c. p c} \<longleftrightarrow> list_all p w"
  by (induction w) (auto simp add: kleene_Cons intro: kleene_Nil)

lemma lang_VALID_PACKAGE_PATTERN:
  "s \<in> lang VALID_PACKAGE_PATTERN \<longleftrightarrow> (\<exists>c cs. s = c # cs \<and> alnum c \<and> list_all name_char cs)"
proof
  assume "s \<in> lang VALID_PACKAGE_PATTERN"
  then show "\<exists>c cs. s = c # cs \<and> alnum c \<and> list_all name_char cs"
    by (auto simp add: VALID_PACKAGE_PATTERN_def kleene_atoms)
next
  assume "\<exists>c cs. s = c # cs \<and> alnum c \<and> list_all name_char cs"
  then obtain c cs where "s = [c] @ cs" "alnum c" "list_all name_char cs" by auto
  then show "s \<in> lang VALID_PACKAGE_PATTERN"
    unfolding VALID_PACKAGE_PATTERN_def lang.simps kleene_atoms by blast
qed

lemma strip_no_final_space:
  assumes "strip s \<noteq> []"
  shows "\<not> isspace (last (strip s))"
proof -
  let ?t = "dropWhile isspace (rev (dropWhile isspace s))"
  have t: "?t \<noteq> []" using assms by (simp add: strip_def)
  then have "\<not> isspace (hd ?t)" by (rule hd_dropWhile)
  then show "\<not> isspace (last (strip s))"
    using t by (simp add: strip_def last_rev)
qed

lemma match_to_end_strip:
  "match_to_end VALID_PACKAGE_PATTERN (strip s)
     \<longleftrightarrow> (\<exists>c cs. strip s = c # cs \<and> alnum c \<and> list_all name_char cs)"
proof (cases "strip s = []")
  case True
  then show ?thesis
    by (simp add: match_to_end_def fullmatch_lang lang_VALID_PACKAGE_PATTERN)
next
  case False
  then have "\<not> isspace (last (strip s))" by (rule strip_no_final_space)
  moreover have "isspace (CHR 0x0A)" by (simp add: isspace_def)
  ultimately have "last (strip s) \<noteq> CHR 0x0A" by metis
  then show ?thesis
    by (simp add: match_to_end_def fullmatch_lang lang_VALID_PACKAGE_PATTERN)
qed

lemma show_nat_100: "show_nat MAX_PACKAGE_NAME_LENGTH = ''100''"
  by code_simp

lemma strip_nonempty:
  assumes "strip s \<noteq> []"
  shows "s \<noteq> []"
proof
  assume "s = []"
  then have "strip s = []" by (simp add: strip_def)
  with assms show False by simp
qed

lemma validate_package_name_examples:
  "validate_package_name ''rm -rf /'' = (False, Some ''Package name contains blocked pattern'')"
  "validate_package_name [] = (False, Some ''Package name cannot be empty'')"
  "validate_package_name ''docker'' = (True, None)"
  "validate_package_name ''node-js'' = (True, None)"
  "validate_package_name ''package.name'' = (True, None)"
  by code_simp+

text \<open>
  C10, amended. The validator strips surrounding whitespace first and judges the stripped
  name. It rejects \<open>rm -rf /\<close> with the blocked-pattern message and the empty string
  with the cannot-be-empty message, as any input that strips to nothing; it rejects, with
  the too-long message, any input whose stripped name has more than 100 characters; it
  rejects with the blocked-pattern message a stripped name of admissible length in which
  a blocked pattern is found; it rejects, with some message, any input whose stripped
  name is not an alphanumeric character followed by alphanumerics, dots, underscores and
  hyphens; an accepted input has no message; and docker, node-js and package.name are
  accepted.
\<close>

theorem validate_package_name_decides:
  "validate_package_name ''rm -rf /'' = (False, Some ''Package name contains blocked pattern'')
   \<and> validate_package_name [] = (False, Some ''Package name cannot be empty'')
   \<and> (strip s = [] \<longrightarrow>
        validate_package_name s = (False, Some ''Package name cannot be empty''))
   \<and> (MAX_PACKAGE_NAME_LENGTH < length (strip s) \<longrightarrow>
        validate_package_name s = (False, Some ''Package name too long (max 100 characters)''))
   \<and> (strip s \<noteq> [] \<and> length (strip s) \<le> MAX_PACKAGE_NAME_LENGTH
        \<and> (\<exists>pattern \<in> set BLOCKED_PATTERNS. search pattern (strip s)) \<longrightarrow>
        validate_package_name s = (False, Some ''Package name contains blocked pattern''))
   \<and> (\<not> (\<exists>c cs. strip s = c # cs \<and> alnum c \<and> list_all name_char cs) \<longrightarrow>
        \<not> fst (validate_package_name s) \<and> snd (validate_package_name s) \<noteq> None)
   \<and> (fst (validate_package_name s) \<longrightarrow> snd (validate_package_name s) = None)
   \<and> validate_package_name ''docker'' = (True, None)
   \<and> validate_package_name ''node-js'' = (True, None)
   \<and> validate_package_name ''package.name'' = (True, None)"
proof -
  have empty: "validate_package_name s = (False, Some ''Package name cannot be empty'')"
    if "strip s = []"
    using that by (simp add: validate_package_name_def)
  have long: "validate_package_name s = (False, Some ''Package name too long (max 100 characters)'')"
    if "MAX_PACKAGE_NAME_LENGTH < length (strip s)"
  proof -
    from that have "strip s \<noteq> []" by auto
    moreover from this have "s \<noteq> []" by (rule strip_nonempty)
    ultimately show ?thesis using that
      by (simp add: validate_package_name_def show_nat_100)
  qed
  have blocked: "validate_package_name s = (False, Some ''Package name contains blocked pattern'')"
    if "strip s \<noteq> []" "length (strip s) \<le> MAX_PACKAGE_NAME_LENGTH"
      "\<exists>pattern \<in> set BLOCKED_PATTERNS. search pattern (strip s)"
  proof -
    from that(1) have "s \<noteq> []" by (rule strip_nonempty)
    with that show ?thesis
      by (simp add: validate_package_name_def list_ex_iff)
  qed
  have shape: "\<not> fst (validate_package_name s) \<and> snd (validate_package_name s) \<noteq> None"
    if "\<not> (\<exists>c cs. strip s = c # cs \<and> alnum c \<and> list_all name_char cs)"
  proof -
    from that have "\<not> match_to_end VALID_PACKAGE_PATTERN (strip s)"
      by (simp only: match_to_end_strip not_False_eq_True)
    then show ?thesis
      by (simp add: validate_package_name_def Let_def)
  qed
  have none: "snd (validate_package_name s) = None" if "fst (validate_package_name s)"
    using that by (simp add: validate_package_name_def Let_def split: if_splits)
  show ?thesis
  proof (intro conjI impI)
    assume "strip s = []"
    then show "validate_package_name s = (False, Some ''Package name cannot be empty'')"
      by (rule empty)
  next
    assume "MAX_PACKAGE_NAME_LENGTH < length (strip s)"
    then show "validate_package_name s
        = (False, Some ''Package name too long (max 100 characters)'')"
      by (rule long)
  next
    assume "strip s \<noteq> [] \<and> length (strip s) \<le> MAX_PACKAGE_NAME_LENGTH
        \<and> (\<exists>pattern \<in> set BLOCKED_PATTERNS. search pattern (strip s))"
    then show "validate_package_name s = (False, Some ''Package name contains blocked pattern'')"
      using blocked by (elim conjE)
  next
    assume h: "\<not> (\<exists>c cs. strip s = c # cs \<and> alnum c \<and> list_all name_char cs)"
    from shape [OF h] show "\<not> fst (validate_package_name s)" by (rule conjunct1)
    from shape [OF h] show "snd (validate_package_name s) \<noteq> None" by (rule conjunct2)
  next
    assume "fst (validate_package_name s)"
    then show "snd (validate_package_name s) = None" by (rule none)
  qed (rule validate_package_name_examples)+
qed

theorem validate_package_name_decides_witness:
  "validate_package_name ''   '' = (False, Some ''Package name cannot be empty'')
   \<and> validate_package_name (replicate 101 (CHR ''a''))
       = (False, Some ''Package name too long (max 100 characters)'')
   \<and> validate_package_name ''dd if=/dev/zero''
       = (False, Some ''Package name contains blocked pattern'')
   \<and> \<not> fst (validate_package_name ''-docker'')
   \<and> snd (validate_package_name ''-docker'') \<noteq> None
   \<and> fst (validate_package_name ''docker'') \<and> snd (validate_package_name ''docker'') = None"
proof -
  have 1: "strip ''   '' = []" by code_simp
  have 2: "MAX_PACKAGE_NAME_LENGTH < length (strip (replicate 101 (CHR ''a'')))" by code_simp
  have 3: "strip ''dd if=/dev/zero'' \<noteq> []
      \<and> length (strip ''dd if=/dev/zero'') \<le> MAX_PACKAGE_NAME_LENGTH
      \<and> (\<exists>pattern \<in> set BLOCKED_PATTERNS. search pattern (strip ''dd if=/dev/zero''))"
    by code_simp
  have s4: "strip ''-docker'' = ''-docker''" by code_simp
  have "\<not> alnum (CHR ''-'')" by code_simp
  then have 4: "\<not> (\<exists>c cs. strip ''-docker'' = c # cs \<and> alnum c \<and> list_all name_char cs)"
    unfolding s4 by simp
  have 5: "fst (validate_package_name ''docker'')" by code_simp
  note a = validate_package_name_decides [of "''   ''", THEN conjunct2, THEN conjunct2,
      THEN conjunct1, THEN mp, OF 1]
  note b = validate_package_name_decides [of "replicate 101 (CHR ''a'')", THEN conjunct2,
      THEN conjunct2, THEN conjunct2, THEN conjunct1, THEN mp, OF 2]
  note c = validate_package_name_decides [of "''dd if=/dev/zero''", THEN conjunct2,
      THEN conjunct2, THEN conjunct2, THEN conjunct2, THEN conjunct1, THEN mp, OF 3]
  note d = validate_package_name_decides [of "''-docker''", THEN conjunct2,
      THEN conjunct2, THEN conjunct2, THEN conjunct2, THEN conjunct2, THEN conjunct1,
      THEN mp, OF 4]
  note e = validate_package_name_decides [of "''docker''", THEN conjunct2,
      THEN conjunct2, THEN conjunct2, THEN conjunct2, THEN conjunct2, THEN conjunct2,
      THEN conjunct1, THEN mp, OF 5]
  from a b c d e 5 show ?thesis by simp
qed

text \<open>
  C10 as stated fails on padded input: the name docker with a space in front does not
  match the pattern and is accepted, and docker followed by 100 spaces is longer than the
  maximum and is accepted.
\<close>

theorem validate_package_name_strips_first_counterexample:
  "validate_package_name '' docker'' = (True, None)
   \<and> \<not> match_to_end VALID_PACKAGE_PATTERN '' docker''
   \<and> MAX_PACKAGE_NAME_LENGTH < length (''docker'' @ replicate 100 (CHR '' ''))
   \<and> validate_package_name (''docker'' @ replicate 100 (CHR '' '')) = (True, None)"
  by code_simp

end

